theory Spec2Isabelle
  imports Main "HOL-Library.Word" "HOL-Library.AList"
begin

unbundle bit_operations_syntax

section \<open>Python values, the json module, exceptions\<close>

text \<open>
  Decoded JSON values, which are also the Python values that reach the SQL value renderer:
  \<open>None\<close> is \<open>JNull\<close>, a \<open>str\<close>/\<open>unicode\<close> is \<open>JString\<close>, a \<open>dict\<close> is \<open>JObject\<close> with
  its items as an association list (keys pairwise different; the order of the pairs stands
  for the dictionary's iteration order and is given no meaning by the handlers).
  Strings are lists of 8-bit characters.
\<close>

datatype json =
    JNull
  | JBool bool
  | JInt int
  | JString string
  | JArray "json list"
  | JObject "(string \<times> json) list"

text \<open>
  The standard library's \<open>json.loads\<close> and \<open>json.dumps\<close> are not code of this repository:
  the model takes them as the two fields of a record. \<open>loads s = None\<close> stands for the
  \<open>ValueError\<close> that \<open>json.loads\<close> raises on malformed text; the first argument of \<open>dumps\<close>
  is the \<open>indent\<close> keyword (\<open>None\<close> when it is not given).
\<close>

record json_module =
  loads :: "string \<Rightarrow> json option"
  dumps :: "nat option \<Rightarrow> json \<Rightarrow> string"

text \<open>graph.py, lines 52-110: the error classes. An argument of the constructor is the
  value substituted for \<open>%s\<close> in the class's message.\<close>

datatype graph_error =
    ObjectNotFoundError
  | ObjectsNotFoundError
  | ConnectionNotFoundError
  | AccessTokenError
  | AliasNotFoundError string
  | BadGetError
  | UnknownPathError string
  | IdSpecifiedError string
  | EmptyIdentifierError

text \<open>Everything a handler can raise: the domain errors above, the built-in exceptions
  that the modelled statements can raise, and the exception by which webapp2's
  \<open>redirect(uri, abort=True)\<close> leaves the handler (status code and \<open>Location\<close>).\<close>

datatype exn =
    GraphError graph_error
  | TypeError
  | ValueError
  | KeyError
  | AttributeError
  | AssertionError
  | HTTPException nat string

fun message :: "graph_error \<Rightarrow> string" where
  "message ObjectNotFoundError = ''false''"
| "message ObjectsNotFoundError = ''[\<newline>\<newline>]''"
| "message ConnectionNotFoundError = ''{\<newline>  \"data\": [\<newline>  ]\<newline>}''"
| "message AccessTokenError = ''A user access token is required to request this resource.''"
| "message (AliasNotFoundError names) =
     ''(#803) Some of the aliases you requested do not exist: '' @ names"
| "message BadGetError = ''Unsupported get request.''"
| "message (UnknownPathError name) = ''Unknown path components: /'' @ name"
| "message (IdSpecifiedError name) =
     ''Invalid token: \"'' @ name @ ''\".  An ID has already been specified.''"
| "message EmptyIdentifierError = ''Cannot specify an empty identifier''"

fun error_type :: "graph_error \<Rightarrow> string option" where
  "error_type ObjectNotFoundError = None"
| "error_type ObjectsNotFoundError = None"
| "error_type ConnectionNotFoundError = None"
| "error_type AccessTokenError = Some ''OAuthException''"
| "error_type (AliasNotFoundError names) = Some ''OAuthException''"
| "error_type BadGetError = Some ''GraphMethodException''"
| "error_type (UnknownPathError name) = Some ''OAuthException''"
| "error_type (IdSpecifiedError name) = Some ''OAuthException''"
| "error_type EmptyIdentifierError = Some ''OAuthException''"

text \<open>\<open>GraphError.__unicode__\<close>: \<open>if self.type\<close> holds exactly for the classes that set a
  (non-empty) type.\<close>

definition unicode :: "json_module \<Rightarrow> graph_error \<Rightarrow> string" where
  "unicode J e =
     (case error_type e of
        Some t \<Rightarrow> dumps J None
          (JObject [(''error'', JObject [(''message'', JString (message e)),
                                          (''type'', JString t)])])
      | None \<Rightarrow> message e)"

section \<open>Strings\<close>

text \<open>\<open>str.split(sep)\<close> with a one-character separator, and \<open>sep.join(xs)\<close>.\<close>

fun split :: "char \<Rightarrow> string \<Rightarrow> string list" where
  "split sep [] = [[]]"
| "split sep (c # cs) =
     (if c = sep then [] # split sep cs
      else (case split sep cs of [] \<Rightarrow> [[c]] | w # ws \<Rightarrow> (c # w) # ws))"

fun join :: "string \<Rightarrow> string list \<Rightarrow> string" where
  "join sep [] = []"
| "join sep [x] = x"
| "join sep (x # y # ys) = x @ sep @ join sep (y # ys)"

definition isspace :: "char \<Rightarrow> bool" where
  "isspace c \<longleftrightarrow> (of_char c :: nat) \<in> {9, 10, 11, 12, 13, 32}"

definition isdigit :: "char \<Rightarrow> bool" where
  "isdigit c \<longleftrightarrow> (48 :: nat) \<le> of_char c \<and> (of_char c :: nat) \<le> 57"

text \<open>
  graph.py, lines 123-131. \<open>is_int(str)\<close> is \<open>True\<close> unless \<open>int(str)\<close> raises
  \<open>ValueError\<close>. Python 2 accepts a decimal literal: white space, an optional sign, white
  space, at least one digit, white space (ASCII characters; of any length, since an
  overflow of the machine integer continues as a \<open>long\<close>).
\<close>

definition is_int :: "string \<Rightarrow> bool" where
  "is_int str =
     (let s1 = dropWhile isspace str;
          s2 = (case s1 of [] \<Rightarrow> []
                | c # r \<Rightarrow> if c = CHR ''+'' \<or> c = CHR ''-'' then r else s1);
          s3 = dropWhile isspace s2
      in takeWhile isdigit s3 \<noteq> [] \<and> dropWhile isspace (dropWhile isdigit s3) = [])"

definition not_int :: "string \<Rightarrow> bool" where
  "not_int str = (\<not> is_int str)"

section \<open>Python sets\<close>

text \<open>
  \<open>prepare_ids\<close> keeps the requested names in a \<open>set\<close> and later joins the elements of a
  set into a message, so the order in which a set is iterated is observable. The
  interpreter of this code base (CPython 2, without hash randomisation) iterates a set by
  ascending slot of its hash table. The model follows it: the string hash on a 64-bit
  machine word, a table of 8 slots probed as the interpreter does, and a rebuilt table
  of four times the number of elements once two thirds of the slots are in use.
  A set is represented by the list of its elements in iteration order.
\<close>

definition string_hash :: "string \<Rightarrow> 64 word" where
  "string_hash s =
     (case s of [] \<Rightarrow> 0
      | c # _ \<Rightarrow>
         (let x = foldl (\<lambda>x ch. (1000003 * x) XOR of_char ch) (push_bit 7 (of_char c)) s;
              y = x XOR of_nat (length s)
          in if y = - 1 then - 2 else y))"

type_synonym settable = "string option list"

text \<open>The probe sequence: slot \<open>i & mask\<close>, then \<open>i = 5 * i + perturb + 1\<close> with
  \<open>perturb\<close> shifted right by 5 after each step. The first argument bounds the number of
  probes; a table with a free slot is left well before the bound.\<close>

fun lookkey :: "nat \<Rightarrow> settable \<Rightarrow> string \<Rightarrow> 64 word \<Rightarrow> 64 word \<Rightarrow> nat" where
  "lookkey 0 tbl key i perturb = unat (i AND of_nat (length tbl - 1))"
| "lookkey (Suc fuel) tbl key i perturb =
     (let j = unat (i AND of_nat (length tbl - 1)) in
      case tbl ! j of
        None \<Rightarrow> j
      | Some k \<Rightarrow>
          if k = key then j
          else lookkey fuel tbl key (5 * i + perturb + 1) (drop_bit 5 perturb))"

definition set_insert_key :: "settable \<Rightarrow> string \<Rightarrow> settable" where
  "set_insert_key tbl key =
     (let h = string_hash key;
          j = lookkey (length tbl + 64) tbl key (h AND of_nat (length tbl - 1)) h
      in case tbl ! j of None \<Rightarrow> tbl[j := Some key] | Some _ \<Rightarrow> tbl)"

definition used :: "settable \<Rightarrow> nat" where
  "used tbl = length (filter (\<lambda>e. e \<noteq> None) tbl)"

function newsize :: "nat \<Rightarrow> nat \<Rightarrow> nat" where
  "newsize n minused = (if 0 < n \<and> n \<le> minused then newsize (2 * n) minused else n)"
  by pat_completeness auto
termination
  by (relation "measure (\<lambda>(n, minused). Suc minused - n)") auto

definition set_table_resize :: "settable \<Rightarrow> nat \<Rightarrow> settable" where
  "set_table_resize tbl minused =
     foldl set_insert_key (replicate (newsize 8 minused) None)
       (map the (filter (\<lambda>e. e \<noteq> None) tbl))"

definition set_add_key :: "settable \<Rightarrow> string \<Rightarrow> settable" where
  "set_add_key tbl key =
     (let tbl' = set_insert_key tbl key; n = used tbl' in
      if used tbl < n \<and> length tbl' * 2 \<le> n * 3
      then set_table_resize tbl' (if 50000 < n then n * 2 else n * 4)
      else tbl')"

definition set_table :: "string list \<Rightarrow> settable" where
  "set_table xs = foldl set_add_key (replicate 8 None) xs"

definition slot :: "settable \<Rightarrow> string \<Rightarrow> nat" where
  "slot tbl key = length (takeWhile (\<lambda>e. e \<noteq> Some key) tbl)"

text \<open>\<open>set(xs)\<close>: the elements of \<open>xs\<close>, each once, by the slot they occupy after they
  were added in the order of \<open>xs\<close>.\<close>

definition py_set :: "string list \<Rightarrow> string list" where
  "py_set xs = sort_key (slot (set_table xs)) (remdups xs)"

text \<open>\<open>a - b\<close>: a new set, to which the elements of \<open>a\<close> that are not in \<open>b\<close> are added
  in the iteration order of \<open>a\<close>.\<close>

definition py_difference :: "string list \<Rightarrow> string list \<Rightarrow> string list" where
  "py_difference a b = py_set (filter (\<lambda>x. x \<notin> set b) a)"

section \<open>Python dictionaries\<close>

text \<open>A \<open>dict\<close> is an association list with pairwise different keys: \<open>d[k] = v\<close> is
  \<open>AList.update k v d\<close>, \<open>d[k]\<close> is \<open>map_of d k\<close> (\<open>KeyError\<close> for \<open>None\<close>),
  \<open>d.keys()\<close> and \<open>d.values()\<close> are \<open>map fst d\<close> and \<open>map snd d\<close>.
  \<open>dict(pairs)\<close> stores the pairs one after the other.\<close>

definition py_dict :: "('k \<times> 'v) list \<Rightarrow> ('k \<times> 'v) list" where
  "py_dict pairs = foldl (\<lambda>d (k, v). AList.update k v d) [] pairs"

section \<open>The request, the database, the handler classes\<close>

text \<open>The query arguments of a request in the order of the query string;
  \<open>request.arguments()\<close> are their names and \<open>request.get(name)\<close> is the first value
  given for the name, the empty string when there is none.\<close>

type_synonym request = "(string \<times> string) list"

definition arguments :: "request \<Rightarrow> string list" where
  "arguments req = map fst req"

definition request_get :: "request \<Rightarrow> string \<Rightarrow> string" where
  "request_get req name = (case map_of req name of Some v \<Rightarrow> v | None \<Rightarrow> [])"

text \<open>
  The SQLite connection, by the tables the handlers query. The script that creates the
  tables is not among the sources; from the queries and the tests' \<open>INSERT\<close>s,
  \<open>graph_objects\<close> has the columns \<open>id, alias, data\<close> (alias \<open>NULL\<close> or text),
  \<open>graph_connections\<close> has \<open>id, connection, data\<close>, and \<open>oauth_access_tokens\<close> has at
  least \<open>user_id\<close> and \<open>token\<close>. A table is the list of its rows in storage order, and a
  \<open>SELECT\<close> without \<open>ORDER BY\<close> returns the rows that satisfy its \<open>WHERE\<close> clause in
  that order.
\<close>

record database =
  graph_objects :: "(string \<times> string option \<times> string) list"
  graph_connections :: "(string \<times> string \<times> string) list"
  oauth_access_tokens :: "(json \<times> json) list"

text \<open>\<open>GraphSchema.connections\<close>: table name to the connection names of the table.\<close>

type_synonym graph_schema = "(string \<times> string list) list"

text \<open>graph.py, lines 134-155: the class attributes of \<open>BaseHandler\<close> and \<open>init\<close>, which
  sets them. The schema that \<open>GraphSchema.read()\<close> loads from its file is an argument.\<close>

record handler =
  conn :: database
  me :: int
  schema :: graph_schema
  all_connections :: "string set"

definition init :: "graph_schema \<Rightarrow> database \<Rightarrow> int \<Rightarrow> handler" where
  "init schema_read c m =
     \<lparr> conn = c, me = m, schema = schema_read,
       all_connections = foldl (\<lambda>acc names. acc \<union> set names) {} (map snd schema_read) \<rparr>"

text \<open>graph.py, lines 113-120: \<open>NameDict\<close>, a dictionary from id to the name it was
  requested by, with the attribute \<open>single\<close>.\<close>

record namedict =
  entries :: "(string \<times> string) list"
  single :: bool

section \<open>Name resolution\<close>

text \<open>graph.py, lines 200-210: the requested names, or the error raised before the
  query. \<open>names\<close> starts as \<open>None\<close>; iterating \<open>None\<close> in \<open>all(...)\<close> is a
  \<open>TypeError\<close>.\<close>

definition requested_names :: "request \<Rightarrow> string \<Rightarrow> exn + string list" where
  "requested_names req path_id =
     (let names = (if ''ids'' \<in> set (arguments req)
                   then Some (py_set (split CHR '','' (request_get req ''ids'')))
                   else None)
      in case (if path_id \<noteq> [] then
                 (if names \<noteq> None \<and> names \<noteq> Some []
                  then Inl (GraphError (IdSpecifiedError path_id))
                  else Inr (Some (py_set [path_id])))
               else Inr names) of
           Inl e \<Rightarrow> Inl e
         | Inr None \<Rightarrow> Inl TypeError
         | Inr (Some ns) \<Rightarrow>
             if list_all (\<lambda>name. name \<noteq> [] \<and> name \<noteq> ''0'') ns then Inr ns
             else Inl (GraphError EmptyIdentifierError))"

text \<open>graph.py, lines 212-216:
  \<open>SELECT id, alias FROM graph_objects WHERE id IN (names) OR alias IN (names)\<close>.\<close>

definition alias_in :: "string option \<Rightarrow> string list \<Rightarrow> bool" where
  "alias_in alias names = (case alias of None \<Rightarrow> False | Some a \<Rightarrow> a \<in> set names)"

definition select_names :: "database \<Rightarrow> string list \<Rightarrow> (string \<times> string option) list" where
  "select_names c names =
     map (\<lambda>(i, alias, d). (i, alias))
       (filter (\<lambda>(i, alias, d). i \<in> set names \<or> alias_in alias names) (graph_objects c))"

text \<open>graph.py, lines 220-222: the loop over the rows that fills the dictionary.\<close>

fun fill_namedict ::
  "string list \<Rightarrow> (string \<times> string option) list \<Rightarrow> (string \<times> string) list
     \<Rightarrow> exn + (string \<times> string) list" where
  "fill_namedict names [] d = Inr d"
| "fill_namedict names ((i, alias) # rows) d =
     (if i \<in> set names \<or> alias_in alias names
      then fill_namedict names rows
             (AList.update i (if alias_in alias names then the alias else i) d)
      else Inl AssertionError)"

text \<open>graph.py, lines 186-236.\<close>

definition prepare_ids :: "handler \<Rightarrow> request \<Rightarrow> string \<Rightarrow> exn + namedict" where
  "prepare_ids h req path_id =
     (case requested_names req path_id of
        Inl e \<Rightarrow> Inl e
      | Inr names \<Rightarrow>
          (case fill_namedict names (select_names (conn h) names) [] of
             Inl e \<Rightarrow> Inl e
           | Inr d \<Rightarrow>
               (let not_found = py_difference names (map snd d @ map fst d) in
                if not_found \<noteq> [] then
                  (let aliases = filter not_int not_found in
                   if aliases \<noteq> [] then Inl (GraphError (AliasNotFoundError (join '','' aliases)))
                   else if path_id \<noteq> [] then Inl (GraphError ObjectNotFoundError)
                   else Inl (GraphError ObjectsNotFoundError))
                else Inr \<lparr> entries = d, single = (path_id \<noteq> []) \<rparr>)))"

section \<open>The handlers\<close>

text \<open>The response object that webapp2 hands to a handler: status 200, nothing written yet;
  \<open>headers\<close> are the headers that the handler sets. The handlers below set one header and
  write the body; none of them sets the status.\<close>

record response =
  status :: nat
  headers :: "(string \<times> string) list"
  body :: string

definition Response :: response where
  "Response = \<lparr> status = 200, headers = [], body = [] \<rparr>"

definition write_response :: "string \<Rightarrow> response" where
  "write_response text =
     Response \<lparr> headers := [(''Content-Type'', ''text/plain; charset=utf-8'')], body := text \<rparr>"

text \<open>graph.py, lines 167-184: \<open>BaseHandler.get\<close>. The second argument is the subclass's
  \<open>_get\<close>. Only a \<open>GraphError\<close> is caught; any other exception leaves the handler.\<close>

definition BaseHandler_get ::
  "json_module \<Rightarrow> (namedict \<Rightarrow> exn + (string \<times> json) list) \<Rightarrow> handler \<Rightarrow> request \<Rightarrow> string
     \<Rightarrow> exn + response" where
  "BaseHandler_get J subclass_get h req path_id =
     (case (case prepare_ids h req path_id of
              Inl e \<Rightarrow> Inl e
            | Inr nd \<Rightarrow>
                (case subclass_get nd of
                   Inl e \<Rightarrow> Inl e
                 | Inr resp \<Rightarrow>
                     if single nd then
                       (if resp = [] then Inr (dumps J None (JArray []))
                        else if length resp = 1 then Inr (dumps J None (snd (hd resp)))
                        else Inl AssertionError)
                     else Inr (dumps J None (JObject resp)))) of
        Inl (GraphError e) \<Rightarrow> Inr (write_response (unicode J e))
      | Inl e \<Rightarrow> Inl e
      | Inr text \<Rightarrow> Inr (write_response text))"

text \<open>graph.py, lines 250-256: \<open>ObjectHandler._get\<close>, with the query
  \<open>SELECT id, data FROM graph_objects WHERE id IN (ids)\<close>.\<close>

definition select_objects :: "database \<Rightarrow> string list \<Rightarrow> (string \<times> string) list" where
  "select_objects c ids =
     map (\<lambda>(i, alias, d). (i, d)) (filter (\<lambda>(i, alias, d). i \<in> set ids) (graph_objects c))"

fun object_pairs ::
  "json_module \<Rightarrow> (string \<times> string) list \<Rightarrow> (string \<times> string) list
     \<Rightarrow> exn + (string \<times> json) list" where
  "object_pairs J nd [] = Inr []"
| "object_pairs J nd ((i, d) # rows) =
     (case map_of nd i of
        None \<Rightarrow> Inl KeyError
      | Some name \<Rightarrow>
          (case loads J d of
             None \<Rightarrow> Inl ValueError
           | Some v \<Rightarrow>
               (case object_pairs J nd rows of
                  Inl e \<Rightarrow> Inl e
                | Inr ps \<Rightarrow> Inr ((name, v) # ps))))"

definition ObjectHandler__get ::
  "json_module \<Rightarrow> handler \<Rightarrow> namedict \<Rightarrow> exn + (string \<times> json) list" where
  "ObjectHandler__get J h nd =
     (let ids = map fst (entries nd) in
      case object_pairs J (entries nd) (select_objects (conn h) ids) of
        Inl e \<Rightarrow> Inl e
      | Inr ps \<Rightarrow> Inr (py_dict ps))"

definition ObjectHandler_get ::
  "json_module \<Rightarrow> handler \<Rightarrow> request \<Rightarrow> string \<Rightarrow> exn + response" where
  "ObjectHandler_get J h req path_id = BaseHandler_get J (ObjectHandler__get J h) h req path_id"

text \<open>graph.py, lines 46-49 and 265-282: \<open>ConnectionHandler._get\<close>, with the query
  \<open>SELECT id, data FROM graph_connections WHERE id IN (ids) AND connection = ?\<close>.
  webapp2's \<open>redirect(uri, abort=True)\<close> first tests \<open>uri.startswith(('.', '/'))\<close>, which
  only a string has; a target that starts with a dot or a slash is replaced by
  \<open>str(urlparse.urljoin(request.url, uri))\<close>; then it raises the exception that ends the
  request with status 302 and the target as \<open>Location\<close>. The URL of the request and the
  standard library's \<open>urljoin\<close> are not modelled: the function that resolves a target
  against the URL of the request at hand is an argument, \<open>urljoin_url\<close>. The model ends
  with the exception that the handler raises and the \<open>Location\<close> it carries; what the
  WSGI layer does with it afterwards is not part of it.\<close>

definition REDIRECT_CONNECTION :: string where
  "REDIRECT_CONNECTION = ''picture''"

definition select_connections ::
  "database \<Rightarrow> string list \<Rightarrow> string \<Rightarrow> (string \<times> string) list" where
  "select_connections c ids connection =
     map (\<lambda>(i, cn, d). (i, d))
       (filter (\<lambda>(i, cn, d). i \<in> set ids \<and> cn = connection) (graph_connections c))"

definition startswith :: "string \<Rightarrow> string list \<Rightarrow> bool" where
  "startswith s prefixes = list_ex (\<lambda>p. take (length p) s = p) prefixes"

definition redirect :: "(string \<Rightarrow> string) \<Rightarrow> json \<Rightarrow> exn" where
  "redirect urljoin_url uri =
     (case uri of
        JString u \<Rightarrow>
          HTTPException 302 (if startswith u [''.'', ''/''] then urljoin_url u else u)
      | _ \<Rightarrow> AttributeError)"

text \<open>The loop of lines 279-280. The response maps a name to \<open>{'data': [...]}\<close>; while it
  is built, each name is kept with the list under its \<open>'data'\<close>.\<close>

fun append_rows ::
  "json_module \<Rightarrow> (string \<times> string) list \<Rightarrow> (string \<times> string) list
     \<Rightarrow> (string \<times> json list) list \<Rightarrow> exn + (string \<times> json list) list" where
  "append_rows J nd [] resp = Inr resp"
| "append_rows J nd ((i, d) # rows) resp =
     (case map_of nd i of
        None \<Rightarrow> Inl KeyError
      | Some name \<Rightarrow>
          (case map_of resp name of
             None \<Rightarrow> Inl KeyError
           | Some xs \<Rightarrow>
               (case loads J d of
                  None \<Rightarrow> Inl ValueError
                | Some v \<Rightarrow> append_rows J nd rows (AList.update name (xs @ [v]) resp))))"

definition ConnectionHandler__get ::
  "json_module \<Rightarrow> (string \<Rightarrow> string) \<Rightarrow> handler \<Rightarrow> namedict \<Rightarrow> string
     \<Rightarrow> exn + (string \<times> json) list" where
  "ConnectionHandler__get J urljoin_url h nd connection =
     (if connection \<notin> all_connections h then Inl (GraphError (UnknownPathError connection))
      else
        (let ids = map fst (entries nd);
             rows = select_connections (conn h) ids connection
         in if connection = REDIRECT_CONNECTION \<and> rows \<noteq> [] then
              (case loads J (snd (hd rows)) of
                 None \<Rightarrow> Inl ValueError
               | Some uri \<Rightarrow> Inl (redirect urljoin_url uri))
            else
              (case append_rows J (entries nd) rows
                      (py_dict (map (\<lambda>name. (name, [])) (map snd (entries nd)))) of
                 Inl e \<Rightarrow> Inl e
               | Inr resp \<Rightarrow>
                   Inr (map (\<lambda>(name, xs). (name, JObject [(''data'', JArray xs)])) resp))))"

definition ConnectionHandler_get ::
  "json_module \<Rightarrow> (string \<Rightarrow> string) \<Rightarrow> handler \<Rightarrow> request \<Rightarrow> string \<Rightarrow> string
     \<Rightarrow> exn + response" where
  "ConnectionHandler_get J urljoin_url h req path_id connection =
     BaseHandler_get J (\<lambda>nd. ConnectionHandler__get J urljoin_url h nd connection) h req path_id"

text \<open>app.py, lines 18-32: \<open>TestUsersHandler.get\<close>, with the query
  \<open>SELECT DISTINCT user_id, token FROM oauth_access_tokens\<close>: each different row once,
  where it first occurs.\<close>

fun select_distinct :: "'a list \<Rightarrow> 'a list" where
  "select_distinct [] = []"
| "select_distinct (r # rows) = r # select_distinct (filter (\<lambda>x. x \<noteq> r) rows)"

definition TestUsersHandler_get :: "json_module \<Rightarrow> database \<Rightarrow> string \<Rightarrow> response" where
  "TestUsersHandler_get J c app_id =
     (let rows = select_distinct (oauth_access_tokens c);
          results = JObject [(''data'',
            JArray (map (\<lambda>(user_id, token).
                      JObject [(''id'', user_id), (''access_token'', token)]) rows))]
      in write_response (dumps J (Some 2) results))"

section \<open>The graph dataset and its SQL\<close>

text \<open>schemautil.py, lines 30-56: \<open>values_to_sqlite\<close>. The tests on the type of a value are
  tried in the source's order; a string's \<open>.encode('utf8')\<close> is the string itself, since
  the model's strings are byte strings.\<close>

definition ALIAS_FIELD :: string where
  "ALIAS_FIELD = ''username''"

definition quote :: char where
  "quote = CHR 0x27"

definition double_quotes :: "string \<Rightarrow> string" where
  "double_quotes s = concat (map (\<lambda>c. if c = quote then [quote, quote] else [c]) s)"

fun sqlite_value :: "json_module \<Rightarrow> json \<Rightarrow> string" where
  "sqlite_value J (JBool b) = (if b then ''1'' else ''0'')"
| "sqlite_value J (JString s) = [quote] @ double_quotes s @ [quote]"
| "sqlite_value J JNull = ''NULL''"
| "sqlite_value J v = dumps J None v"

definition values_to_sqlite :: "json_module \<Rightarrow> json list \<Rightarrow> string" where
  "values_to_sqlite J input = join '',\<newline>  '' (map (sqlite_value J) input)"

text \<open>schemautil.py, lines 241-264: the named tuples \<open>Data\<close> and \<open>Connection\<close>.\<close>

record Data =
  Data_table :: string
  Data_query :: string
  Data_data :: json

record Connection =
  Connection_table :: string
  Connection_id :: json
  Connection_name :: json
  Connection_data :: json

text \<open>schemautil.py, lines 318-329: \<open>GraphDataset\<close> with its dictionaries \<open>data\<close> and
  \<open>connections\<close>.\<close>

record GraphDataset =
  dataset_data :: "(string \<times> Data) list"
  dataset_connections :: "(string \<times> Connection) list"

text \<open>\<open>v[key]\<close> and \<open>v.get(key)\<close> for a string key, and the iteration of \<open>for x in v\<close>:
  only a dictionary has string keys and \<open>get\<close>; a dictionary iterates over its keys and
  a string over its characters.\<close>

definition getitem :: "json \<Rightarrow> string \<Rightarrow> exn + json" where
  "getitem v key =
     (case v of
        JObject items \<Rightarrow> (case map_of items key of None \<Rightarrow> Inl KeyError | Some x \<Rightarrow> Inr x)
      | _ \<Rightarrow> Inl TypeError)"

definition dict_get :: "json \<Rightarrow> string \<Rightarrow> exn + json" where
  "dict_get v key =
     (case v of
        JObject items \<Rightarrow> Inr (case map_of items key of None \<Rightarrow> JNull | Some x \<Rightarrow> x)
      | _ \<Rightarrow> Inl AttributeError)"

definition iterate :: "json \<Rightarrow> exn + json list" where
  "iterate v =
     (case v of
        JArray xs \<Rightarrow> Inr xs
      | JObject items \<Rightarrow> Inr (map (\<lambda>p. JString (fst p)) items)
      | JString s \<Rightarrow> Inr (map (\<lambda>c. JString [c]) s)
      | _ \<Rightarrow> Inl TypeError)"

text \<open>schemautil.py, lines 355-365: \<open>make_insert(table, *values)\<close>.\<close>

definition make_insert :: "json_module \<Rightarrow> string \<Rightarrow> json list \<Rightarrow> string" where
  "make_insert J table vals =
     ''INSERT INTO '' @ table @ '' VALUES (\<newline>  '' @ values_to_sqlite J vals @ ''\<newline>);''"

text \<open>schemautil.py, lines 331-353: \<open>GraphDataset.to_sql\<close>. \<open>object_values\<close> and
  \<open>connection_values\<close> are the positional values that the two loops pass to
  \<open>make_insert\<close> after the table name.\<close>

definition object_values :: "json_module \<Rightarrow> Data \<Rightarrow> exn + json list" where
  "object_values J d =
     (case getitem (Data_data d) ''id'' of
        Inl e \<Rightarrow> Inl e
      | Inr i \<Rightarrow>
          (case dict_get (Data_data d) ALIAS_FIELD of
             Inl e \<Rightarrow> Inl e
           | Inr alias \<Rightarrow> Inr [i, alias, JString (dumps J None (Data_data d))]))"

definition connection_values :: "json_module \<Rightarrow> Connection \<Rightarrow> json \<Rightarrow> json list" where
  "connection_values J c obj =
     [Connection_id c, Connection_name c, JString (dumps J None obj)]"

fun object_inserts :: "json_module \<Rightarrow> Data list \<Rightarrow> exn + string list" where
  "object_inserts J [] = Inr []"
| "object_inserts J (d # ds) =
     (case object_values J d of
        Inl e \<Rightarrow> Inl e
      | Inr vals \<Rightarrow>
          (case object_inserts J ds of
             Inl e \<Rightarrow> Inl e
           | Inr out \<Rightarrow> Inr (make_insert J ''graph_objects'' vals # out)))"

fun connection_inserts :: "json_module \<Rightarrow> Connection list \<Rightarrow> exn + string list" where
  "connection_inserts J [] = Inr []"
| "connection_inserts J (c # cs) =
     (case getitem (Connection_data c) ''data'' of
        Inl e \<Rightarrow> Inl e
      | Inr v \<Rightarrow>
          (case iterate v of
             Inl e \<Rightarrow> Inl e
           | Inr objs \<Rightarrow>
               (case connection_inserts J cs of
                  Inl e \<Rightarrow> Inl e
                | Inr out \<Rightarrow>
                    Inr (map (\<lambda>obj. make_insert J ''graph_connections''
                                       (connection_values J c obj)) objs @ out))))"

definition to_sql :: "json_module \<Rightarrow> GraphDataset \<Rightarrow> exn + string" where
  "to_sql J ds =
     (case object_inserts J (map snd (dataset_data ds)) of
        Inl e \<Rightarrow> Inl e
      | Inr objects \<Rightarrow>
          (case connection_inserts J (map snd (dataset_connections ds)) of
             Inl e \<Rightarrow> Inl e
           | Inr connections \<Rightarrow>
               Inr (join ''\<newline>''
                      ([''BEGIN TRANSACTION;''] @ objects @ connections @ [''COMMIT;'']))))"

section \<open>Stored names\<close>

text \<open>The ids and the aliases of the stored graph objects; a name is stored when it is
  one of them.\<close>

definition stored_ids :: "database \<Rightarrow> string list" where
  "stored_ids c = map (\<lambda>(i, alias, d). i) (graph_objects c)"

definition stored_aliases :: "database \<Rightarrow> string list" where
  "stored_aliases c = List.map_filter (\<lambda>(i, alias, d). alias) (graph_objects c)"

definition stored :: "database \<Rightarrow> string \<Rightarrow> bool" where
  "stored c name \<longleftrightarrow> name \<in> set (stored_ids c) \<or> name \<in> set (stored_aliases c)"

text \<open>The fields of a fixture object as the dataset's SQL reads them: the value stored under
  a key (\<open>None\<close> when the value is no dictionary or has no such key), and the elements of
  a list.\<close>

definition field :: "json \<Rightarrow> string \<Rightarrow> json" where
  "field v key =
     (case v of
        JObject items \<Rightarrow> (case map_of items key of None \<Rightarrow> JNull | Some x \<Rightarrow> x)
      | _ \<Rightarrow> JNull)"

definition has_field :: "json \<Rightarrow> string \<Rightarrow> bool" where
  "has_field v key = (case v of JObject items \<Rightarrow> map_of items key \<noteq> None | _ \<Rightarrow> False)"

definition elements :: "json \<Rightarrow> json list" where
  "elements v = (case v of JArray xs \<Rightarrow> xs | _ \<Rightarrow> [])"

definition is_list :: "json \<Rightarrow> bool" where
  "is_list v = (case v of JArray xs \<Rightarrow> True | _ \<Rightarrow> False)"

text \<open>The rule by which a value is written into an SQL statement, in the specification's
  words: a boolean as \<open>0\<close> or \<open>1\<close>, a string between single quotes with every single
  quote in it doubled, no value as \<open>NULL\<close>, and any other value as its JSON literal. The
  theorem on the dataset's SQL compares \<open>to_sql\<close> with text written by this rule.\<close>

definition sql_literal :: "json_module \<Rightarrow> json \<Rightarrow> string" where
  "sql_literal J v =
     (case v of
        JBool b \<Rightarrow> (if b then ''1'' else ''0'')
      | JString s \<Rightarrow>
          [CHR 0x27] @ concat (map (\<lambda>c. if c = CHR 0x27 then [CHR 0x27, CHR 0x27] else [c]) s)
            @ [CHR 0x27]
      | JNull \<Rightarrow> ''NULL''
      | _ \<Rightarrow> dumps J None v)"

text \<open>The decoded data of the rows that belong to a response key, in the order of the
  rows: a row belongs to the key that the name dictionary gives for its id.\<close>

definition decoded :: "json_module \<Rightarrow> (string \<times> string) list \<Rightarrow> string \<Rightarrow> (string \<times> string) list \<Rightarrow> json list" where
  "decoded J nd name rows =
     List.map_filter (\<lambda>(i, d). loads J d) (filter (\<lambda>(i, d). map_of nd i = Some name) rows)"

section \<open>The fixture of the tests\<close>

text \<open>graph_test.py, lines 22-35: the rows that \<open>setUp\<close> inserts, and the payloads they
  decode to. The schema file is not among the sources; the tests treat \<open>albums\<close>,
  \<open>family\<close> and \<open>picture\<close> as connection names and \<open>foo\<close> as none. The fixture's
  schema has two tables.\<close>

definition alice :: json where
  "alice = JObject [(''id'', JString ''1''), (''foo'', JString ''bar'')]"

definition bob :: json where
  "bob = JObject [(''id'', JString ''2''), (''inner'', JObject [(''foo'', JString ''baz'')])]"

definition test_db :: database where
  "test_db =
     \<lparr> graph_objects =
         [(''1'', Some ''alice'', ''{\"id\": \"1\", \"foo\": \"bar\"}''),
          (''2'', Some ''bob'', ''{\"id\": \"2\", \"inner\": {\"foo\": \"baz\"}}'')],
       graph_connections =
         [(''1'', ''albums'', ''{\"id\": \"3\"}''),
          (''1'', ''albums'', ''{\"id\": \"4\"}''),
          (''2'', ''albums'', ''{\"id\": \"5\"}''),
          (''1'', ''picture'', ''\"http://alice/picture\"''),
          (''2'', ''picture'', ''\"http://bob/picture\"'')],
       oauth_access_tokens = [] \<rparr>"

definition test_schema :: graph_schema where
  "test_schema = [(''page'', [''feed'', ''picture'']),
                  (''user'', [''albums'', ''family'', ''picture''])]"

definition test_handler :: handler where
  "test_handler = init test_schema test_db 1"

text \<open>A json module for the fixture: \<open>loads\<close> decodes the payloads above and rejects any
  other text; \<open>dumps\<close> writes a value in Python's default layout (strings without
  characters that need an escape).\<close>

definition test_loads :: "string \<Rightarrow> json option" where
  "test_loads = map_of
     [(''{\"id\": \"1\", \"foo\": \"bar\"}'', alice),
      (''{\"id\": \"2\", \"inner\": {\"foo\": \"baz\"}}'', bob),
      (''{\"id\": \"3\"}'', JObject [(''id'', JString ''3'')]),
      (''{\"id\": \"4\"}'', JObject [(''id'', JString ''4'')]),
      (''{\"id\": \"5\"}'', JObject [(''id'', JString ''5'')]),
      (''\"http://alice/picture\"'', JString ''http://alice/picture''),
      (''\"http://bob/picture\"'', JString ''http://bob/picture''),
      (''\"/pic\"'', JString ''/pic'')]"

function decimal :: "nat \<Rightarrow> string" where
  "decimal n = (if n < 10 then [char_of (48 + n)] else decimal (n div 10) @ [char_of (48 + n mod 10)])"
  by pat_completeness auto
termination
  by (relation "measure id") auto

fun json_text :: "json \<Rightarrow> string" where
  "json_text JNull = ''null''"
| "json_text (JBool b) = (if b then ''true'' else ''false'')"
| "json_text (JInt i) = (if i < 0 then ''-'' @ decimal (nat (- i)) else decimal (nat i))"
| "json_text (JString s) = ''\"'' @ s @ ''\"''"
| "json_text (JArray xs) = ''['' @ join '', '' (map json_text xs) @ '']''"
| "json_text (JObject items) =
     ''{'' @ join '', '' (map (\<lambda>p. ''\"'' @ fst p @ ''\": '' @ json_text (snd p)) items) @ ''}''"

definition test_json :: json_module where
  "test_json = \<lparr> loads = test_loads, dumps = (\<lambda>indent. json_text) \<rparr>"

text \<open>What \<open>urljoin\<close> gives for a request to \<open>http://localhost\<close> and a target that is an
  absolute path.\<close>

definition test_urljoin :: "string \<Rightarrow> string" where
  "test_urljoin uri = ''http://localhost'' @ uri"

text \<open>Two databases with unique ids and unique aliases: in the first, the alias of the
  object \<open>1\<close> is the id of the other object; in the second, the only picture is stored
  as an absolute path.\<close>

definition clash_db :: database where
  "clash_db =
     \<lparr> graph_objects =
         [(''1'', Some ''2'', ''{\"id\": \"1\", \"foo\": \"bar\"}''),
          (''2'', Some ''x'', ''{\"id\": \"2\", \"inner\": {\"foo\": \"baz\"}}'')],
       graph_connections = [],
       oauth_access_tokens = [] \<rparr>"

definition path_db :: database where
  "path_db =
     \<lparr> graph_objects = [(''1'', Some ''alice'', ''{\"id\": \"1\", \"foo\": \"bar\"}'')],
       graph_connections = [(''1'', ''picture'', ''\"/pic\"'')],
       oauth_access_tokens = [] \<rparr>"

text \<open>A dataset with the two objects of the fixture and the albums of the first.\<close>

definition test_dataset :: GraphDataset where
  "test_dataset =
     \<lparr> dataset_data =
         [(''1'', \<lparr> Data_table = ''user'', Data_query = ''1'', Data_data = alice \<rparr>),
          (''2'', \<lparr> Data_table = ''user'', Data_query = ''2'', Data_data = bob \<rparr>)],
       dataset_connections =
         [(''1/albums'',
           \<lparr> Connection_table = ''user'', Connection_id = JString ''1'',
             Connection_name = JString ''albums'',
             Connection_data = JObject [(''data'',
               JArray [JObject [(''id'', JString ''3'')], JObject [(''id'', JString ''4'')]])] \<rparr>)] \<rparr>"

section \<open>Facts about sets, strings and queries\<close>

lemma set_py_set: "set (py_set xs) = set xs"
  by (simp add: py_set_def)

lemma distinct_py_set: "distinct (py_set xs)"
  by (simp add: py_set_def)

lemma py_set_Nil_iff: "py_set xs = [] \<longleftrightarrow> xs = []"
proof -
  have "py_set xs = [] \<longleftrightarrow> set (py_set xs) = {}" by simp
  then show ?thesis by (simp add: set_py_set)
qed

lemma set_py_difference: "set (py_difference a b) = set a - set b"
  by (auto simp: py_difference_def set_py_set)

lemma distinct_py_difference: "distinct (py_difference a b)"
  by (simp add: py_difference_def distinct_py_set)

lemma split_not_Nil: "split sep s \<noteq> []"
  by (induction s) (auto split: list.splits)

lemma set_select_distinct: "set (select_distinct xs) = set xs"
  by (induction xs rule: select_distinct.induct) auto

lemma distinct_select_distinct: "distinct (select_distinct xs)"
  by (induction xs rule: select_distinct.induct) (auto simp: set_select_distinct)

section \<open>Requests without any identifier\<close>

text \<open>
  C10. A request with an empty path identifier and no \<open>ids\<close> argument leaves \<open>names\<close> as
  \<open>None\<close>; \<open>prepare_ids\<close> raises \<open>TypeError\<close> when it iterates over it. \<open>TypeError\<close> is not a
  \<open>GraphError\<close>, so \<open>get\<close> does not catch it, whatever the subclass's \<open>_get\<close> is: the
  exception leaves the handler and no error body is written.
\<close>

theorem no_identifier_raises_TypeError:
  assumes "''ids'' \<notin> set (arguments req)"
  shows "prepare_ids h req [] = Inl TypeError
       \<and> BaseHandler_get J subclass_get h req [] = Inl TypeError
       \<and> (\<forall>e. TypeError \<noteq> GraphError e)"
  using assms by (simp add: prepare_ids_def requested_names_def BaseHandler_get_def)

text \<open>\<open>GET /\<close> on the fixture.\<close>

theorem no_identifier_raises_TypeError_witness:
  "''ids'' \<notin> set (arguments [])
   \<and> prepare_ids test_handler [] [] = Inl TypeError
   \<and> ObjectHandler_get test_json test_handler [] [] = Inl TypeError"
  using no_identifier_raises_TypeError
    [of "[]" test_handler test_json "ObjectHandler__get test_json test_handler"]
  by (simp add: arguments_def ObjectHandler_get_def)

section \<open>Both a path identifier and the ids argument\<close>

lemma requested_names_both:
  assumes "path_id \<noteq> []" and "''ids'' \<in> set (arguments req)"
  shows "requested_names req path_id = Inl (GraphError (IdSpecifiedError path_id))"
  using assms by (simp add: requested_names_def py_set_Nil_iff split_not_Nil)

text \<open>
  C7. A request with a path identifier and the \<open>ids\<close> argument raises \<open>IdSpecifiedError\<close>
  with the path identifier, whatever the value of \<open>ids\<close> is. The message is the source's
  template with the identifier in it: \<open>Invalid token: "\<close>, the identifier, \<open>".\<close>, two
  spaces, \<open>An ID has already been specified.\<close>
\<close>

theorem id_already_specified:
  assumes "path_id \<noteq> []" and "''ids'' \<in> set (arguments req)"
  shows "prepare_ids h req path_id = Inl (GraphError (IdSpecifiedError path_id))
       \<and> message (IdSpecifiedError path_id) =
           ''Invalid token: \"'' @ path_id @ ''\".'' @ ''  '' @ ''An ID has already been specified.''"
  using assms by (simp add: prepare_ids_def requested_names_both)

text \<open>\<open>GET /foo?ids=bar\<close> on the fixture.\<close>

theorem id_already_specified_witness:
  "''foo'' \<noteq> [] \<and> ''ids'' \<in> set (arguments [(''ids'', ''bar'')])
   \<and> prepare_ids test_handler [(''ids'', ''bar'')] ''foo''
       = Inl (GraphError (IdSpecifiedError ''foo''))
   \<and> message (IdSpecifiedError ''foo'')
       = ''Invalid token: \"foo\".  An ID has already been specified.''"
  using id_already_specified [of "''foo''" "[(''ids'', ''bar'')]" test_handler]
  by (simp add: arguments_def)

text \<open>The message with a single space after the first full stop is not the one the
  code renders.\<close>

theorem id_already_specified_one_space_counterexample:
  "message (IdSpecifiedError ''foo'')
     \<noteq> ''Invalid token: \"foo\". An ID has already been specified.''"
  by simp

section \<open>The error boundary\<close>

text \<open>
  C3. When name resolution or the subclass's retrieval raises a \<open>GraphError\<close>, \<open>get\<close> catches
  it and writes a response. Its status is 200, and its body is
  \<open>{"error": {"message": ..., "type": ...}}\<close> as \<open>json.dumps\<close> renders it when the error
  class has a type, and the bare message when it has none.
\<close>

theorem graph_error_response:
  assumes "prepare_ids h req path_id = Inl (GraphError e)
         \<or> (\<exists>nd. prepare_ids h req path_id = Inr nd \<and> subclass_get nd = Inl (GraphError e))"
  shows "\<exists>r. BaseHandler_get J subclass_get h req path_id = Inr r
          \<and> status r = 200
          \<and> body r = (case error_type e of
                        Some t \<Rightarrow> dumps J None
                          (JObject [(''error'', JObject [(''message'', JString (message e)),
                                                          (''type'', JString t)])])
                      | None \<Rightarrow> message e)"
  using assms
  by (auto simp: BaseHandler_get_def write_response_def Response_def unicode_def)

text \<open>On the fixture: \<open>GET /9\<close>, an error without a type, raised by the resolution, and
  \<open>GET /alice/foo\<close>, an error with a type, raised by the retrieval.\<close>

theorem graph_error_response_witness:
  "prepare_ids test_handler [] ''9'' = Inl (GraphError ObjectNotFoundError)
   \<and> (\<exists>r. ObjectHandler_get test_json test_handler [] ''9'' = Inr r
          \<and> status r = 200 \<and> body r = ''false'')
   \<and> prepare_ids test_handler [] ''alice''
       = Inr \<lparr> entries = [(''1'', ''alice'')], single = True \<rparr>
   \<and> ConnectionHandler__get test_json test_urljoin test_handler
         \<lparr> entries = [(''1'', ''alice'')], single = True \<rparr> ''foo''
       = Inl (GraphError (UnknownPathError ''foo''))
   \<and> (\<exists>r. ConnectionHandler_get test_json test_urljoin test_handler [] ''alice'' ''foo'' = Inr r
          \<and> status r = 200
          \<and> body r = dumps test_json None
               (JObject [(''error'', JObject [(''message'', JString ''Unknown path components: /foo''),
                                               (''type'', JString ''OAuthException'')])]))"
proof -
  let ?nd = "\<lparr> entries = [(''1'', ''alice'')], single = True \<rparr>"
  let ?g = "\<lambda>nd. ConnectionHandler__get test_json test_urljoin test_handler nd ''foo''"
  have p: "prepare_ids test_handler [] ''9'' = Inl (GraphError ObjectNotFoundError)"
    by code_simp
  have q: "prepare_ids test_handler [] ''alice'' = Inr ?nd" by code_simp
  have u: "?g ?nd = Inl (GraphError (UnknownPathError ''foo''))" by code_simp
  from q u have "\<exists>nd. prepare_ids test_handler [] ''alice'' = Inr nd
      \<and> ?g nd = Inl (GraphError (UnknownPathError ''foo''))" by blast
  from graph_error_response [of test_handler "[]" "''alice''" "UnknownPathError ''foo''" ?g
      test_json, OF disjI2 [OF this]]
  have 2: "\<exists>r. ConnectionHandler_get test_json test_urljoin test_handler [] ''alice'' ''foo'' = Inr r
          \<and> status r = 200
          \<and> body r = dumps test_json None
               (JObject [(''error'', JObject [(''message'', JString ''Unknown path components: /foo''),
                                               (''type'', JString ''OAuthException'')])])"
    by (simp add: ConnectionHandler_get_def)
  from graph_error_response [of test_handler "[]" "''9''" ObjectNotFoundError
      "ObjectHandler__get test_json test_handler" test_json, OF disjI1 [OF p]]
  have 1: "\<exists>r. ObjectHandler_get test_json test_handler [] ''9'' = Inr r
          \<and> status r = 200 \<and> body r = ''false''"
    by (simp add: ObjectHandler_get_def)
  from 1 2 p q u show ?thesis by blast
qed

section \<open>The test users\<close>

text \<open>
  C8. The response of the test-users endpoint does not depend on the application id. Its
  status is 200, its content type is plain text in UTF-8, and its body is what
  \<open>json.dump\<close> with \<open>indent=2\<close> writes for \<open>{"data": [{"id": user_id, "access_token":
  token}, ...]}\<close> with one element for every different row of the token table.
\<close>

theorem test_users_ignore_app_id:
  "TestUsersHandler_get J c app_id = TestUsersHandler_get J c other_app_id
   \<and> status (TestUsersHandler_get J c app_id) = 200
   \<and> headers (TestUsersHandler_get J c app_id)
       = [(''Content-Type'', ''text/plain; charset=utf-8'')]
   \<and> (\<exists>rows. distinct rows \<and> set rows = set (oauth_access_tokens c)
        \<and> body (TestUsersHandler_get J c app_id) =
            dumps J (Some 2)
              (JObject [(''data'', JArray (map (\<lambda>(user_id, token).
                  JObject [(''id'', user_id), (''access_token'', token)]) rows))]))"
proof -
  let ?rows = "select_distinct (oauth_access_tokens c)"
  have "distinct ?rows" and "set ?rows = set (oauth_access_tokens c)"
    by (simp_all add: distinct_select_distinct set_select_distinct)
  then show ?thesis
    by (auto simp: TestUsersHandler_get_def write_response_def Response_def Let_def)
qed

section \<open>The identity me\<close>

text \<open>
  C6. On the fixture, whose object with id \<open>1\<close> has the alias \<open>alice\<close>, and with the
  handler initialised with \<open>me = 1\<close>: \<open>GET /1\<close> and \<open>GET /alice\<close> return the stored
  payload, but \<open>GET /me\<close> returns the body of \<open>AliasNotFoundError\<close> for \<open>me\<close>. \<open>init\<close>
  stores \<open>me\<close>, and nothing in the name resolution reads it.
\<close>

theorem me_is_not_resolved:
  "me test_handler = 1
   \<and> ObjectHandler_get test_json test_handler [] ''1''
       = Inr (write_response (dumps test_json None alice))
   \<and> ObjectHandler_get test_json test_handler [] ''alice''
       = Inr (write_response (dumps test_json None alice))
   \<and> ObjectHandler_get test_json test_handler [] ''me''
       = Inr (write_response (unicode test_json (AliasNotFoundError ''me'')))"
  by code_simp

section \<open>The SQL of a graph dataset\<close>

lemma object_values_ok:
  assumes "has_field (Data_data d) ''id''"
  shows "object_values J d =
           Inr [field (Data_data d) ''id'', field (Data_data d) ALIAS_FIELD,
                JString (dumps J None (Data_data d))]"
  using assms
  by (auto simp: object_values_def getitem_def dict_get_def has_field_def field_def
           split: json.splits option.splits)

lemma object_inserts_ok:
  assumes "list_all (\<lambda>d. has_field (Data_data d) ''id'') ds"
  shows "object_inserts J ds =
           Inr (map (\<lambda>d. make_insert J ''graph_objects''
                          [field (Data_data d) ''id'', field (Data_data d) ALIAS_FIELD,
                           JString (dumps J None (Data_data d))]) ds)"
  using assms by (induction ds) (simp_all add: object_values_ok)

lemma connection_rows_ok:
  assumes "is_list (field (Connection_data c) ''data'')"
  shows "\<exists>v. getitem (Connection_data c) ''data'' = Inr v
           \<and> iterate v = Inr (elements (field (Connection_data c) ''data''))"
  using assms
  by (auto simp: getitem_def iterate_def is_list_def field_def elements_def
           split: json.splits option.splits)

lemma connection_inserts_ok:
  assumes "list_all (\<lambda>c. is_list (field (Connection_data c) ''data'')) cs"
  shows "connection_inserts J cs =
           Inr (concat (map (\<lambda>c. map (\<lambda>obj. make_insert J ''graph_connections''
                                  [Connection_id c, Connection_name c, JString (dumps J None obj)])
                               (elements (field (Connection_data c) ''data''))) cs))"
  using assms
proof (induction cs)
  case Nil
  then show ?case by simp
next
  case (Cons c cs)
  from Cons.prems have "is_list (field (Connection_data c) ''data'')" by simp
  from connection_rows_ok [OF this] obtain v where
    "getitem (Connection_data c) ''data'' = Inr v"
    "iterate v = Inr (elements (field (Connection_data c) ''data''))" by blast
  with Cons show ?case by (simp add: connection_values_def)
qed

lemma double_quotes_literal:
  "double_quotes s = concat (map (\<lambda>c. if c = CHR 0x27 then [CHR 0x27, CHR 0x27] else [c]) s)"
  unfolding double_quotes_def quote_def ..

lemma sqlite_value_literal: "sqlite_value J v = sql_literal J v"
  by (cases v) (simp_all add: sql_literal_def double_quotes_literal, simp add: quote_def)

lemma make_insert_three:
  "make_insert J table [a, b, c] =
     ''INSERT INTO '' @ table @ '' VALUES (\<newline>  '' @ sql_literal J a @ '',\<newline>  ''
       @ sql_literal J b @ '',\<newline>  '' @ sql_literal J c @ ''\<newline>);''"
  by (simp add: make_insert_def values_to_sqlite_def sqlite_value_literal)

text \<open>
  C9. For a dataset whose objects are dictionaries with an \<open>id\<close> and whose connections
  hold a list under \<open>data\<close>, \<open>to_sql\<close> returns one transaction: \<open>BEGIN TRANSACTION;\<close>,
  then for every object one statement \<open>INSERT INTO graph_objects VALUES (...);\<close> with
  three positional values (the id, the value under \<open>username\<close>, which is written \<open>NULL\<close>
  when the object has none, and the text of the whole object as \<open>json.dumps\<close> writes it,
  as a string), then for every connection one statement
  \<open>INSERT INTO graph_connections VALUES (...);\<close> per element of its list (the owning id,
  the connection's name, and the text of the element, as a string), then \<open>COMMIT;\<close>,
  joined by newlines. Every value is written by the rule for SQL values.
\<close>

theorem to_sql_statements:
  assumes "list_all (\<lambda>d. has_field (Data_data d) ''id'') (map snd (dataset_data ds))"
      and "list_all (\<lambda>c. is_list (field (Connection_data c) ''data''))
             (map snd (dataset_connections ds))"
  shows "to_sql J ds =
     Inr (join ''\<newline>''
       ([''BEGIN TRANSACTION;'']
        @ map (\<lambda>d. ''INSERT INTO graph_objects VALUES (\<newline>  ''
                     @ sql_literal J (field (Data_data d) ''id'') @ '',\<newline>  ''
                     @ sql_literal J (field (Data_data d) ''username'') @ '',\<newline>  ''
                     @ sql_literal J (JString (dumps J None (Data_data d))) @ ''\<newline>);'')
            (map snd (dataset_data ds))
        @ concat (map (\<lambda>c. map (\<lambda>obj. ''INSERT INTO graph_connections VALUES (\<newline>  ''
                                   @ sql_literal J (Connection_id c) @ '',\<newline>  ''
                                   @ sql_literal J (Connection_name c) @ '',\<newline>  ''
                                   @ sql_literal J (JString (dumps J None obj)) @ ''\<newline>);'')
                            (elements (field (Connection_data c) ''data'')))
                   (map snd (dataset_connections ds)))
        @ [''COMMIT;'']))"
  by (simp add: to_sql_def object_inserts_ok [OF assms(1)] connection_inserts_ok [OF assms(2)]
        make_insert_three ALIAS_FIELD_def)

text \<open>The SQL of the fixture's dataset.\<close>

theorem to_sql_statements_witness:
  "list_all (\<lambda>d. has_field (Data_data d) ''id'') (map snd (dataset_data test_dataset))
   \<and> list_all (\<lambda>c. is_list (field (Connection_data c) ''data''))
        (map snd (dataset_connections test_dataset))
   \<and> to_sql test_json test_dataset =
       Inr ''BEGIN TRANSACTION;\<newline>INSERT INTO graph_objects VALUES (\<newline>  '1',\<newline>  NULL,\<newline>  '{\"id\": \"1\", \"foo\": \"bar\"}'\<newline>);\<newline>INSERT INTO graph_objects VALUES (\<newline>  '2',\<newline>  NULL,\<newline>  '{\"id\": \"2\", \"inner\": {\"foo\": \"baz\"}}'\<newline>);\<newline>INSERT INTO graph_connections VALUES (\<newline>  '1',\<newline>  'albums',\<newline>  '{\"id\": \"3\"}'\<newline>);\<newline>INSERT INTO graph_connections VALUES (\<newline>  '1',\<newline>  'albums',\<newline>  '{\"id\": \"4\"}'\<newline>);\<newline>COMMIT;''"
proof -
  have a: "list_all (\<lambda>d. has_field (Data_data d) ''id'') (map snd (dataset_data test_dataset))"
    by code_simp
  have b: "list_all (\<lambda>c. is_list (field (Connection_data c) ''data''))
             (map snd (dataset_connections test_dataset))"
    by code_simp
  from to_sql_statements [OF a b, of test_json] a b show ?thesis
    by (simp add: test_dataset_def field_def elements_def alice_def bob_def
                  test_json_def sql_literal_def)
qed

text \<open>The statement of an object has three values, not four.\<close>

theorem object_insert_three_values_counterexample:
  "object_values test_json \<lparr> Data_table = ''user'', Data_query = ''1'', Data_data = alice \<rparr>
     = Inr [JString ''1'', JNull, JString (json_text alice)]
   \<and> length [JString ''1'', JNull, JString (json_text alice)] \<noteq> 4
   \<and> to_sql test_json
        \<lparr> dataset_data =
            [(''1'', \<lparr> Data_table = ''user'', Data_query = ''1'', Data_data = alice \<rparr>)],
          dataset_connections = [] \<rparr>
       = Inr ''BEGIN TRANSACTION;\<newline>INSERT INTO graph_objects VALUES (\<newline>  '1',\<newline>  NULL,\<newline>  '{\"id\": \"1\", \"foo\": \"bar\"}'\<newline>);\<newline>COMMIT;''"
  by code_simp

section \<open>Names that are not found\<close>

lemma update_fresh: "k \<notin> fst ` set d \<Longrightarrow> AList.update k v d = d @ [(k, v)]"
  by (induction d) auto

lemma fold_update_fresh:
  assumes "distinct (map fst rows)" and "fst ` set rows \<inter> fst ` set d = {}"
  shows "foldl (\<lambda>d (i, a). AList.update i (f i a) d) d rows = d @ map (\<lambda>(i, a). (i, f i a)) rows"
  using assms
proof (induction rows arbitrary: d)
  case Nil
  then show ?case by simp
next
  case (Cons r rows)
  obtain i a where r: "r = (i, a)" by (cases r)
  from Cons.prems r have fresh: "i \<notin> fst ` set d" by auto
  from Cons.prems have "distinct (map fst rows)" by simp
  moreover from Cons.prems r have "fst ` set rows \<inter> fst ` set (d @ [(i, f i a)]) = {}" by auto
  ultimately have "foldl (\<lambda>d (i, a). AList.update i (f i a) d) (d @ [(i, f i a)]) rows
      = (d @ [(i, f i a)]) @ map (\<lambda>(i, a). (i, f i a)) rows"
    by (rule Cons.IH)
  with r fresh show ?case by (simp add: update_fresh)
qed

lemma fill_namedict_fold:
  assumes "\<And>i a. (i, a) \<in> set rows \<Longrightarrow> i \<in> set names \<or> alias_in a names"
  shows "fill_namedict names rows d =
           Inr (foldl (\<lambda>d (i, a). AList.update i (if alias_in a names then the a else i) d) d rows)"
  using assms by (induction rows arbitrary: d) auto

lemma select_names_matched:
  "(i, a) \<in> set (select_names c names) \<Longrightarrow> i \<in> set names \<or> alias_in a names"
  by (auto simp: select_names_def)

lemma set_select_names:
  "set (select_names c names) =
     {(i, a). \<exists>d. (i, a, d) \<in> set (graph_objects c) \<and> (i \<in> set names \<or> alias_in a names)}"
  by (auto simp: select_names_def image_iff)

lemma distinct_select_names:
  assumes "distinct (stored_ids c)"
  shows "distinct (map fst (select_names c names))"
proof -
  have "map fst (select_names c names) =
          map (\<lambda>(i, alias, d). i)
            (filter (\<lambda>(i, alias, d). i \<in> set names \<or> alias_in alias names) (graph_objects c))"
    by (simp add: select_names_def case_prod_unfold comp_def)
  with assms show ?thesis by (simp add: stored_ids_def distinct_map_filter)
qed

text \<open>With unique ids, the dictionary has one entry for each selected row.\<close>

lemma fill_namedict_entries:
  assumes "distinct (stored_ids c)"
  shows "fill_namedict names (select_names c names) [] =
           Inr (map (\<lambda>(i, a). (i, if alias_in a names then the a else i)) (select_names c names))"
proof -
  have "fill_namedict names (select_names c names) [] =
          Inr (foldl (\<lambda>d (i, a). AList.update i (if alias_in a names then the a else i) d) []
                 (select_names c names))"
    by (rule fill_namedict_fold) (rule select_names_matched)
  also have "foldl (\<lambda>d (i, a). AList.update i (if alias_in a names then the a else i) d) []
                 (select_names c names)
      = [] @ map (\<lambda>(i, a). (i, if alias_in a names then the a else i)) (select_names c names)"
    by (rule fold_update_fresh) (simp_all add: distinct_select_names [OF assms])
  finally show ?thesis by simp
qed

lemma stored_ids_iff: "n \<in> set (stored_ids c) \<longleftrightarrow> (\<exists>a d. (n, a, d) \<in> set (graph_objects c))"
  by (force simp: stored_ids_def image_iff)

lemma stored_aliases_iff:
  "n \<in> set (stored_aliases c) \<longleftrightarrow> (\<exists>i d. (i, Some n, d) \<in> set (graph_objects c))"
  by (force simp: stored_aliases_def List.map_filter_def image_iff)

lemma found_iff_stored:
  fixes c :: database and names :: "string list"
  assumes "n \<in> set names"
  defines "d \<equiv> map (\<lambda>(i, a). (i, if alias_in a names then the a else i)) (select_names c names)"
  shows "n \<in> set (map snd d @ map fst d) \<longleftrightarrow> stored c n"
proof
  assume "n \<in> set (map snd d @ map fst d)"
  then consider (val) i a where "(i, a) \<in> set (select_names c names)"
        "n = (if alias_in a names then the a else i)"
    | (key) a where "(n, a) \<in> set (select_names c names)"
    by (auto simp: d_def image_iff)
  then show "stored c n"
  proof cases
    case val
    then obtain dt where "(i, a, dt) \<in> set (graph_objects c)" by (auto simp: set_select_names)
    with val(2) show ?thesis
      by (cases a) (auto simp: stored_def stored_ids_iff stored_aliases_iff alias_in_def)
  next
    case key
    then show ?thesis by (auto simp: stored_def stored_ids_iff set_select_names)
  qed
next
  assume "stored c n"
  then consider (byid) a dt where "(n, a, dt) \<in> set (graph_objects c)"
    | (byalias) i dt where "(i, Some n, dt) \<in> set (graph_objects c)"
    by (auto simp: stored_def stored_ids_iff stored_aliases_iff)
  then show "n \<in> set (map snd d @ map fst d)"
  proof cases
    case byid
    with assms(1) have "(n, a) \<in> set (select_names c names)" by (auto simp: set_select_names)
    then show ?thesis by (force simp: d_def image_iff)
  next
    case byalias
    with assms(1) have "(i, Some n) \<in> set (select_names c names)"
      by (auto simp: set_select_names alias_in_def)
    moreover from assms(1) have "alias_in (Some n) names" by (simp add: alias_in_def)
    ultimately show ?thesis by (force simp: d_def image_iff)
  qed
qed

lemma requested_names_set:
  assumes "requested_names req path_id = Inr names"
  shows "set names = set (if path_id \<noteq> [] then [path_id]
                          else split CHR '','' (request_get req ''ids''))"
  using assms
  by (auto simp: requested_names_def set_py_set Let_def split: if_splits option.splits sum.splits)

lemma prepare_ids_not_found:
  assumes "distinct (stored_ids (conn h))"
      and "requested_names req path_id = Inr names"
  shows "prepare_ids h req path_id =
     (let not_found = py_set (filter (\<lambda>n. \<not> stored (conn h) n) names) in
      if not_found \<noteq> [] then
        (let aliases = filter not_int not_found in
         if aliases \<noteq> [] then Inl (GraphError (AliasNotFoundError (join '','' aliases)))
         else if path_id \<noteq> [] then Inl (GraphError ObjectNotFoundError)
         else Inl (GraphError ObjectsNotFoundError))
      else Inr \<lparr> entries = map (\<lambda>(i, a). (i, if alias_in a names then the a else i))
                               (select_names (conn h) names),
                 single = (path_id \<noteq> []) \<rparr>)"
proof -
  let ?d = "map (\<lambda>(i, a). (i, if alias_in a names then the a else i)) (select_names (conn h) names)"
  have "filter (\<lambda>n. n \<notin> set (map snd ?d @ map fst ?d)) names
      = filter (\<lambda>n. \<not> stored (conn h) n) names"
    by (rule filter_cong) (simp_all only: found_iff_stored)
  then have "py_difference names (map snd ?d @ map fst ?d)
      = py_set (filter (\<lambda>n. \<not> stored (conn h) n) names)"
    by (simp only: py_difference_def)
  then show ?thesis
    by (simp add: prepare_ids_def assms(2) fill_namedict_entries [OF assms(1)])
qed

text \<open>
  C1. Let the ids of the stored objects be unique, let the request pass the checks before
  the query with the name set \<open>names\<close>, and let some requested name be neither a stored id
  nor a stored alias. Then \<open>prepare_ids\<close> raises exactly one of three errors. If some name
  that is not stored is non-numeric, it is \<open>AliasNotFoundError\<close> with the comma-joined
  non-numeric names that are not stored, each once, in the order in which the set of
  not-found names is iterated; otherwise it is \<open>ObjectNotFoundError\<close> for a request with
  a path identifier and \<open>ObjectsNotFoundError\<close> for a request with \<open>ids\<close>.
\<close>

theorem not_found_error:
  assumes "distinct (stored_ids (conn h))"
      and "requested_names req path_id = Inr names"
      and "\<exists>n \<in> set names. \<not> stored (conn h) n"
  shows "\<exists>aliases.
           aliases = filter not_int (py_set (filter (\<lambda>n. \<not> stored (conn h) n) names))
         \<and> distinct aliases
         \<and> set aliases = {n \<in> set names. \<not> stored (conn h) n \<and> not_int n}
         \<and> set names = set (if path_id \<noteq> [] then [path_id]
                              else split CHR '','' (request_get req ''ids''))
         \<and> prepare_ids h req path_id =
             Inl (GraphError
               (if aliases \<noteq> [] then AliasNotFoundError (join '','' aliases)
                else if path_id \<noteq> [] then ObjectNotFoundError
                else ObjectsNotFoundError))"
proof -
  let ?nf = "py_set (filter (\<lambda>n. \<not> stored (conn h) n) names)"
  from assms(3) have "filter (\<lambda>n. \<not> stored (conn h) n) names \<noteq> []"
    by (auto simp: filter_empty_conv)
  then have nf: "?nf \<noteq> []" by (simp add: py_set_Nil_iff)
  have "distinct (filter not_int ?nf)" by (simp add: distinct_py_set)
  moreover have "set (filter not_int ?nf) = {n \<in> set names. \<not> stored (conn h) n \<and> not_int n}"
    by (auto simp: set_py_set)
  moreover note requested_names_set [OF assms(2)]
  moreover have "prepare_ids h req path_id =
             Inl (GraphError
               (if filter not_int ?nf \<noteq> [] then AliasNotFoundError (join '','' (filter not_int ?nf))
                else if path_id \<noteq> [] then ObjectNotFoundError
                else ObjectsNotFoundError))"
    using nf by (simp add: prepare_ids_not_found [OF assms(1,2)] Let_def)
  ultimately show ?thesis by blast
qed

text \<open>\<open>GET /?ids=alice,foo\<close> on the fixture.\<close>

theorem not_found_error_witness:
  "distinct (stored_ids (conn test_handler))
   \<and> requested_names [(''ids'', ''alice,foo'')] [] = Inr [''foo'', ''alice'']
   \<and> \<not> stored (conn test_handler) ''foo''
   \<and> prepare_ids test_handler [(''ids'', ''alice,foo'')] []
       = Inl (GraphError (AliasNotFoundError ''foo''))"
proof -
  have a: "distinct (stored_ids (conn test_handler))" by code_simp
  have b: "requested_names [(''ids'', ''alice,foo'')] [] = Inr [''foo'', ''alice'']" by code_simp
  have c: "\<not> stored (conn test_handler) ''foo''" by code_simp
  then have d: "\<exists>n \<in> set [''foo'', ''alice'']. \<not> stored (conn test_handler) n" by simp
  have e: "filter not_int (py_set (filter (\<lambda>n. \<not> stored (conn test_handler) n) [''foo'', ''alice'']))
            = [''foo'']" by code_simp
  from not_found_error [OF a b d] e a b c show ?thesis by simp
qed

text \<open>\<open>GET /?ids=bar,foo\<close> on the fixture: the request names \<open>bar\<close> before \<open>foo\<close>, the
  message names \<open>foo\<close> before \<open>bar\<close>.\<close>

theorem not_found_request_order_counterexample:
  "split CHR '','' (request_get [(''ids'', ''bar,foo'')] ''ids'') = [''bar'', ''foo'']
   \<and> prepare_ids test_handler [(''ids'', ''bar,foo'')] []
       = Inl (GraphError (AliasNotFoundError ''foo,bar''))"
  by code_simp

section \<open>Facts about dictionaries\<close>

lemma map_of_fold_update:
  "map_of (foldl (\<lambda>d (k, v). AList.update k v d) d ps) k =
     (case map_of (rev ps) k of Some v \<Rightarrow> Some v | None \<Rightarrow> map_of d k)"
proof (induction ps arbitrary: d)
  case Nil
  then show ?case by simp
next
  case (Cons p ps)
  obtain k' v' where p: "p = (k', v')" by (cases p)
  show ?case
    by (simp add: p Cons.IH update_conv' map_add_def split: option.splits)
qed

lemma keys_fold_update:
  "fst ` set (foldl (\<lambda>d (k, v). AList.update k v d) d ps) = fst ` set d \<union> fst ` set ps"
proof (induction ps arbitrary: d)
  case Nil
  then show ?case by simp
next
  case (Cons p ps)
  obtain k' v' where p: "p = (k', v')" by (cases p)
  have "fst ` set (AList.update k' v' d) = insert k' (fst ` set d)"
    by (induction d) auto
  then show ?case by (simp add: p Cons.IH)
qed

lemma distinct_fold_update:
  "distinct (map fst d) \<Longrightarrow> distinct (map fst (foldl (\<lambda>d (k, v). AList.update k v d) d ps))"
  by (induction ps arbitrary: d) (auto simp: distinct_update)

lemma map_of_py_dict:
  "map_of (py_dict ps) k = map_of (rev ps) k"
  by (simp add: py_dict_def map_of_fold_update split: option.splits)

lemma keys_py_dict: "fst ` set (py_dict ps) = fst ` set ps"
  by (simp add: py_dict_def keys_fold_update)

lemma distinct_py_dict: "distinct (map fst (py_dict ps))"
  by (simp add: py_dict_def distinct_fold_update)

lemma map_of_rev_unique:
  assumes "(k, v) \<in> set ps" and "\<And>v'. (k, v') \<in> set ps \<Longrightarrow> v' = v"
  shows "map_of (rev ps) k = Some v"
proof -
  from assms(1) have "(k, v) \<in> set (rev ps)" by simp
  then obtain v' where v': "map_of (rev ps) k = Some v'"
    by (blast dest: weak_map_of_SomeI)
  then have "(k, v') \<in> set ps" by (auto dest: map_of_SomeD)
  with assms(2) v' show ?thesis by simp
qed

section \<open>Connections\<close>

lemma append_rows_spec:
  assumes "\<forall>i d. (i, d) \<in> set rows \<longrightarrow>
             (\<exists>name. map_of nd i = Some name \<and> name \<in> fst ` set resp) \<and> loads J d \<noteq> None"
  shows "\<exists>resp'. append_rows J nd rows resp = Inr resp'
           \<and> map fst resp' = map fst resp
           \<and> (\<forall>name. map_of resp' name =
                 map_option (\<lambda>xs. xs @ decoded J nd name rows) (map_of resp name))"
  using assms
proof (induction rows arbitrary: resp)
  case Nil
  show ?case by (simp add: decoded_def option.map_ident)
next
  case (Cons r rows)
  obtain i d where r: "r = (i, d)" by (cases r)
  from Cons.prems r have
    "(\<exists>name. map_of nd i = Some name \<and> name \<in> fst ` set resp) \<and> loads J d \<noteq> None"
    by simp
  then obtain name v where
    name: "map_of nd i = Some name" "name \<in> fst ` set resp" and v: "loads J d = Some v"
    by auto
  from name(2) obtain xs where xs: "map_of resp name = Some xs"
    by (cases "map_of resp name") (simp_all add: map_of_eq_None_iff)
  let ?resp1 = "AList.update name (xs @ [v]) resp"
  from name(2) have keys1: "map fst ?resp1 = map fst resp"
    by (simp add: update_keys)
  have "fst ` set ?resp1 = fst ` set resp"
    using keys1 by (metis list.set_map)
  with Cons.prems have "\<forall>i d. (i, d) \<in> set rows \<longrightarrow>
          (\<exists>name. map_of nd i = Some name \<and> name \<in> fst ` set ?resp1) \<and> loads J d \<noteq> None"
    by simp
  from Cons.IH [OF this] obtain resp' where
    IH: "append_rows J nd rows ?resp1 = Inr resp'" "map fst resp' = map fst ?resp1"
      "\<forall>n. map_of resp' n = map_option (\<lambda>xs. xs @ decoded J nd n rows) (map_of ?resp1 n)"
    by blast
  have "append_rows J nd (r # rows) resp = Inr resp'"
    by (simp add: r name(1) xs v IH(1))
  moreover have "map fst resp' = map fst resp" using IH(2) keys1 by simp
  moreover have "map_of resp' n = map_option (\<lambda>xs. xs @ decoded J nd n (r # rows)) (map_of resp n)" for n
  proof (cases "n = name")
    case True
    then show ?thesis
      by (simp add: IH(3) update_conv' xs r name(1) v decoded_def)
  next
    case False
    then show ?thesis
      using name(1) by (simp add: IH(3) update_conv' r decoded_def)
  qed
  ultimately show ?case by blast
qed

lemma select_connections_key:
  "(i, d) \<in> set (select_connections c ids connection) \<Longrightarrow> i \<in> set ids"
  by (auto simp: select_connections_def)

lemma map_of_empty_lists:
  "map_of (py_dict (map (\<lambda>name. (name, [])) names)) n = (if n \<in> set names then Some [] else None)"
proof (cases "n \<in> set names")
  case True
  then have "map_of (rev (map (\<lambda>name. (name, [])) names)) n = Some []"
    by (intro map_of_rev_unique) auto
  with True show ?thesis by (simp add: map_of_py_dict)
next
  case False
  then have "n \<notin> fst ` set (py_dict (map (\<lambda>name. (name, [])) names))"
    by (simp add: keys_py_dict image_image)
  with False show ?thesis by (simp add: map_of_eq_None_iff)
qed

lemma foldl_union:
  "foldl (\<lambda>acc names. acc \<union> set names) A xs = A \<union> (\<Union>names \<in> set xs. set names)"
  by (induction xs arbitrary: A) auto

lemma all_connections_init:
  "all_connections (init sch c m) = (\<Union>names \<in> set (map snd sch). set names)"
  by (simp add: init_def foldl_union)

lemma conn_init: "conn (init sch c m) = c"
  by (simp add: init_def)

lemma ConnectionHandler__get_unknown:
  assumes "connection \<notin> all_connections h"
  shows "ConnectionHandler__get J urljoin_url h nd connection
           = Inl (GraphError (UnknownPathError connection))"
  using assms by (simp add: ConnectionHandler__get_def)

lemma ConnectionHandler__get_mapping:
  assumes "rows = select_connections (conn h) (map fst (entries nd)) connection"
      and "connection \<in> all_connections h"
      and "\<not> (connection = REDIRECT_CONNECTION \<and> rows \<noteq> [])"
      and "list_all (\<lambda>(i, d). loads J d \<noteq> None) rows"
  shows "\<exists>resp. ConnectionHandler__get J urljoin_url h nd connection = Inr resp
               \<and> distinct (map fst resp)
               \<and> set (map fst resp) = set (map snd (entries nd))
               \<and> (\<forall>name. name \<in> set (map snd (entries nd)) \<longrightarrow>
                     map_of resp name =
                       Some (JObject [(''data'', JArray (decoded J (entries nd) name rows))]))"
proof -
  let ?empty = "py_dict (map (\<lambda>name. (name, [] :: json list)) (map snd (entries nd)))"
  have keys_empty: "fst ` set ?empty = snd ` set (entries nd)"
    by (simp add: keys_py_dict image_image)
  have "\<forall>i d. (i, d) \<in> set rows \<longrightarrow>
          (\<exists>name. map_of (entries nd) i = Some name \<and> name \<in> fst ` set ?empty) \<and> loads J d \<noteq> None"
  proof (intro allI impI)
    fix i d assume r: "(i, d) \<in> set rows"
    with assms(1) have "i \<in> fst ` set (entries nd)" by (auto dest: select_connections_key)
    then obtain name where n: "map_of (entries nd) i = Some name"
      by (cases "map_of (entries nd) i") (simp_all add: map_of_eq_None_iff)
    then have "(i, name) \<in> set (entries nd)" by (rule map_of_SomeD)
    then have "name \<in> fst ` set ?empty" unfolding keys_empty by force
    moreover from assms(4) r have "loads J d \<noteq> None" by (auto simp: list_all_iff)
    ultimately show "(\<exists>name. map_of (entries nd) i = Some name \<and> name \<in> fst ` set ?empty) \<and> loads J d \<noteq> None"
      using n by simp
  qed
  from append_rows_spec [OF this] obtain resp' where
    r0: "append_rows J (entries nd) rows ?empty = Inr resp' \<and> map fst resp' = map fst ?empty
       \<and> (\<forall>name. map_of resp' name =
          map_option (\<lambda>xs. xs @ decoded J (entries nd) name rows) (map_of ?empty name))" ..
  then have
    r: "append_rows J (entries nd) rows ?empty = Inr resp'" "map fst resp' = map fst ?empty"
       "\<forall>name. map_of resp' name =
          map_option (\<lambda>xs. xs @ decoded J (entries nd) name rows) (map_of ?empty name)"
    by simp_all
  let ?resp = "map (\<lambda>(name, xs). (name, JObject [(''data'', JArray xs)])) resp'"
  have keys: "map fst ?resp = map fst resp'" by (simp add: case_prod_unfold comp_def)
  have "ConnectionHandler__get J urljoin_url h nd connection = Inr ?resp"
    using assms(2,3) r(1) assms(1) by (auto simp: ConnectionHandler__get_def Let_def)
  moreover have "distinct (map fst ?resp)"
    by (simp only: keys r(2) distinct_py_dict)
  moreover have "set (map fst ?resp) = set (map snd (entries nd))"
    using keys_empty by (simp only: keys r(2)) simp
  moreover have "map_of ?resp name = Some (JObject [(''data'', JArray (decoded J (entries nd) name rows))])"
    if "name \<in> set (map snd (entries nd))" for name
  proof -
    from that have "map_of ?empty name = Some []"
      by (simp only: map_of_empty_lists if_True)
    then have "map_of resp' name = Some (decoded J (entries nd) name rows)"
      by (simp add: r(3))
    then show ?thesis by (simp add: map_of_map)
  qed
  ultimately show ?thesis by blast
qed

text \<open>
  C5. Let the handler be initialised with a schema, let the names of a connection request
  resolve, and let \<open>rows\<close> be the rows that the query of \<open>ConnectionHandler._get\<close>
  returns. If the connection name is among the connection names of no table of the
  schema, \<open>_get\<close> raises \<open>UnknownPathError\<close> with the name, and the response is its
  rendering. Otherwise, unless the name is \<open>picture\<close> and there are rows, and when the
  data of every row is valid JSON, \<open>_get\<close> returns a dictionary whose keys are exactly
  the resolved keys (the values of the name dictionary); each key is mapped to
  \<open>{"data": [...]}\<close>, whose list holds the decoded data of the rows of that key in the
  order of the rows, and is empty for a key without rows; for a request with \<open>ids\<close> the
  body of the response is that dictionary as \<open>json.dumps\<close> writes it.
\<close>

theorem connection_request:
  assumes "prepare_ids (init sch c m) req path_id = Inr nd"
      and "rows = select_connections c (map fst (entries nd)) connection"
  shows "(connection \<notin> (\<Union>names \<in> set (map snd sch). set names) \<longrightarrow>
            ConnectionHandler__get J urljoin_url (init sch c m) nd connection
              = Inl (GraphError (UnknownPathError connection))
          \<and> ConnectionHandler_get J urljoin_url (init sch c m) req path_id connection
              = Inr (write_response (unicode J (UnknownPathError connection))))
       \<and> (connection \<in> (\<Union>names \<in> set (map snd sch). set names)
            \<and> \<not> (connection = REDIRECT_CONNECTION \<and> rows \<noteq> [])
            \<and> list_all (\<lambda>(i, d). loads J d \<noteq> None) rows \<longrightarrow>
            (\<exists>resp. ConnectionHandler__get J urljoin_url (init sch c m) nd connection = Inr resp
               \<and> distinct (map fst resp)
               \<and> set (map fst resp) = set (map snd (entries nd))
               \<and> (\<forall>name. name \<in> set (map snd (entries nd)) \<longrightarrow>
                     map_of resp name =
                       Some (JObject [(''data'', JArray (decoded J (entries nd) name rows))]))
               \<and> (\<not> single nd \<longrightarrow>
                     ConnectionHandler_get J urljoin_url (init sch c m) req path_id connection
                       = Inr (write_response (dumps J None (JObject resp))))))"
proof (intro conjI impI)
  assume "connection \<notin> (\<Union>names \<in> set (map snd sch). set names)"
  then have no: "connection \<notin> all_connections (init sch c m)"
    unfolding all_connections_init .
  from ConnectionHandler__get_unknown [OF no]
  show u: "ConnectionHandler__get J urljoin_url (init sch c m) nd connection
              = Inl (GraphError (UnknownPathError connection))" .
  from assms(1) u
  show "ConnectionHandler_get J urljoin_url (init sch c m) req path_id connection
              = Inr (write_response (unicode J (UnknownPathError connection)))"
    by (simp add: ConnectionHandler_get_def BaseHandler_get_def)
next
  assume a: "connection \<in> (\<Union>names \<in> set (map snd sch). set names)
            \<and> \<not> (connection = REDIRECT_CONNECTION \<and> rows \<noteq> [])
            \<and> list_all (\<lambda>(i, d). loads J d \<noteq> None) rows"
  then have yes: "connection \<in> all_connections (init sch c m)"
    unfolding all_connections_init by blast
  from assms(2) have rows: "rows = select_connections (conn (init sch c m)) (map fst (entries nd)) connection"
    unfolding conn_init .
  from a have nr: "\<not> (connection = REDIRECT_CONNECTION \<and> rows \<noteq> [])"
    and ok: "list_all (\<lambda>(i, d). loads J d \<noteq> None) rows" by blast+
  from ConnectionHandler__get_mapping [OF rows yes nr ok, of urljoin_url] obtain resp where
    r: "ConnectionHandler__get J urljoin_url (init sch c m) nd connection = Inr resp
               \<and> distinct (map fst resp)
               \<and> set (map fst resp) = set (map snd (entries nd))
               \<and> (\<forall>name. name \<in> set (map snd (entries nd)) \<longrightarrow>
                     map_of resp name =
                       Some (JObject [(''data'', JArray (decoded J (entries nd) name rows))]))" ..
  then have g: "ConnectionHandler__get J urljoin_url (init sch c m) nd connection = Inr resp"
    by simp
  have "ConnectionHandler_get J urljoin_url (init sch c m) req path_id connection
          = Inr (write_response (dumps J None (JObject resp)))" if "\<not> single nd"
    using that assms(1) g by (simp add: ConnectionHandler_get_def BaseHandler_get_def)
  with r show "\<exists>resp. ConnectionHandler__get J urljoin_url (init sch c m) nd connection = Inr resp
               \<and> distinct (map fst resp)
               \<and> set (map fst resp) = set (map snd (entries nd))
               \<and> (\<forall>name. name \<in> set (map snd (entries nd)) \<longrightarrow>
                     map_of resp name =
                       Some (JObject [(''data'', JArray (decoded J (entries nd) name rows))]))
               \<and> (\<not> single nd \<longrightarrow>
                     ConnectionHandler_get J urljoin_url (init sch c m) req path_id connection
                       = Inr (write_response (dumps J None (JObject resp))))"
    by blast
qed

text \<open>\<open>GET /alice/foo\<close> and \<open>GET //albums?ids=alice,bob\<close> on the fixture; \<open>albums\<close> is a
  connection name of the second table only.\<close>

theorem connection_request_witness:
  "prepare_ids (init test_schema test_db 1) [] ''alice''
     = Inr \<lparr> entries = [(''1'', ''alice'')], single = True \<rparr>
   \<and> ''foo'' \<notin> (\<Union>names \<in> set (map snd test_schema). set names)
   \<and> ConnectionHandler_get test_json test_urljoin (init test_schema test_db 1) [] ''alice'' ''foo''
       = Inr (write_response (unicode test_json (UnknownPathError ''foo'')))
   \<and> prepare_ids (init test_schema test_db 1) [(''ids'', ''alice,bob'')] []
       = Inr \<lparr> entries = [(''1'', ''alice''), (''2'', ''bob'')], single = False \<rparr>
   \<and> ''albums'' \<in> (\<Union>names \<in> set (map snd test_schema). set names)
   \<and> (\<exists>resp. ConnectionHandler__get test_json test_urljoin (init test_schema test_db 1)
                 \<lparr> entries = [(''1'', ''alice''), (''2'', ''bob'')], single = False \<rparr> ''albums''
               = Inr resp
          \<and> map_of resp ''alice'' = Some (JObject [(''data'',
                JArray [JObject [(''id'', JString ''3'')], JObject [(''id'', JString ''4'')]])])
          \<and> map_of resp ''bob'' = Some (JObject [(''data'',
                JArray [JObject [(''id'', JString ''5'')]])])
          \<and> ConnectionHandler_get test_json test_urljoin (init test_schema test_db 1)
                [(''ids'', ''alice,bob'')] [] ''albums''
              = Inr (write_response (dumps test_json None (JObject resp))))"
proof -
  let ?h = "init test_schema test_db 1"
  let ?one = "\<lparr> entries = [(''1'', ''alice'')], single = True \<rparr>"
  let ?nd = "\<lparr> entries = [(''1'', ''alice''), (''2'', ''bob'')], single = False \<rparr>"
  let ?rows = "[(''1'', ''{\"id\": \"3\"}''), (''1'', ''{\"id\": \"4\"}''), (''2'', ''{\"id\": \"5\"}'')]"
  have p1: "prepare_ids ?h [] ''alice'' = Inr ?one" by code_simp
  have no: "''foo'' \<notin> (\<Union>names \<in> set (map snd test_schema). set names)" by code_simp
  have rows_foo: "[] = select_connections test_db (map fst (entries ?one)) ''foo''"
    by code_simp
  have p2: "prepare_ids ?h [(''ids'', ''alice,bob'')] [] = Inr ?nd" by code_simp
  have rows: "?rows = select_connections test_db (map fst (entries ?nd)) ''albums''"
    by code_simp
  have yes: "''albums'' \<in> (\<Union>names \<in> set (map snd test_schema). set names)" by code_simp
  have pre: "''albums'' \<in> (\<Union>names \<in> set (map snd test_schema). set names)
      \<and> \<not> (''albums'' = REDIRECT_CONNECTION \<and> ?rows \<noteq> [])
      \<and> list_all (\<lambda>(i, d). loads test_json d \<noteq> None) ?rows"
    by code_simp
  have a: "decoded test_json (entries ?nd) ''alice'' ?rows
             = [JObject [(''id'', JString ''3'')], JObject [(''id'', JString ''4'')]]"
    by code_simp
  have b: "decoded test_json (entries ?nd) ''bob'' ?rows = [JObject [(''id'', JString ''5'')]]"
    by code_simp
  have s: "\<not> single ?nd" by simp
  from connection_request [OF p1 rows_foo, of test_json test_urljoin] no
  have 1: "ConnectionHandler_get test_json test_urljoin ?h [] ''alice'' ''foo''
             = Inr (write_response (unicode test_json (UnknownPathError ''foo'')))" by blast
  from connection_request [OF p2 rows, of test_json test_urljoin] pre s obtain resp where
    r: "ConnectionHandler__get test_json test_urljoin ?h ?nd ''albums'' = Inr resp"
       "\<forall>name. name \<in> set (map snd (entries ?nd)) \<longrightarrow>
          map_of resp name = Some (JObject [(''data'', JArray (decoded test_json (entries ?nd) name ?rows))])"
       "ConnectionHandler_get test_json test_urljoin ?h [(''ids'', ''alice,bob'')] [] ''albums''
              = Inr (write_response (dumps test_json None (JObject resp)))"
    by blast
  from r(2) have "map_of resp ''alice'' = Some (JObject [(''data'',
                JArray [JObject [(''id'', JString ''3'')], JObject [(''id'', JString ''4'')]])])"
    unfolding a [symmetric] by simp
  moreover from r(2) have "map_of resp ''bob'' = Some (JObject [(''data'',
                JArray [JObject [(''id'', JString ''5'')]])])"
    unfolding b [symmetric] by simp
  ultimately show ?thesis using p1 no 1 p2 yes r(1) r(3) by blast
qed

text \<open>\<open>GET /foo/bar\<close> on the fixture: neither the name nor the connection name is known,
  and the response is the body of \<open>AliasNotFoundError\<close>.\<close>

theorem unresolved_name_counterexample:
  "''bar'' \<notin> (\<Union>names \<in> set (map snd test_schema). set names)
   \<and> prepare_ids (init test_schema test_db 1) [] ''foo''
       = Inl (GraphError (AliasNotFoundError ''foo''))
   \<and> ConnectionHandler_get test_json test_urljoin (init test_schema test_db 1) [] ''foo'' ''bar''
       = Inr (write_response (unicode test_json (AliasNotFoundError ''foo'')))
   \<and> unicode test_json (AliasNotFoundError ''foo'') \<noteq> unicode test_json (UnknownPathError ''bar'')"
  by code_simp

section \<open>The picture redirect\<close>

text \<open>
  C4. Let the handler be initialised with a schema that has \<open>picture\<close> among the
  connection names of some table, let the names of the request resolve, and let the query
  for the rows of the resolved ids and the connection \<open>picture\<close> return at least one row,
  the data of the first of which decodes to a string. Then the handler leaves through
  webapp2's redirect, whichever requested id the first row belongs to, and writes no body:
  the exception it raises has status 302, and the \<open>Location\<close> it carries is that string
  when it starts with neither a dot nor a slash, and that string resolved against the URL
  of the request when it does.
\<close>

theorem picture_redirect:
  assumes "REDIRECT_CONNECTION \<in> (\<Union>names \<in> set (map snd sch). set names)"
      and "prepare_ids (init sch c m) req path_id = Inr nd"
      and "select_connections c (map fst (entries nd)) REDIRECT_CONNECTION = (i, d) # rows"
      and "loads J d = Some (JString url)"
  shows "ConnectionHandler_get J urljoin_url (init sch c m) req path_id REDIRECT_CONNECTION
           = Inl (HTTPException 302 (if startswith url [''.'', ''/''] then urljoin_url url else url))
       \<and> (\<not> startswith url [''.'', ''/''] \<longrightarrow>
            ConnectionHandler_get J urljoin_url (init sch c m) req path_id REDIRECT_CONNECTION
              = Inl (HTTPException 302 url))"
proof -
  from assms(1) have "REDIRECT_CONNECTION \<in> all_connections (init sch c m)"
    unfolding all_connections_init by blast
  with assms(3,4) have
    "ConnectionHandler__get J urljoin_url (init sch c m) nd REDIRECT_CONNECTION
       = Inl (HTTPException 302 (if startswith url [''.'', ''/''] then urljoin_url url else url))"
    by (simp add: ConnectionHandler__get_def redirect_def conn_init)
  with assms(2) have
    "ConnectionHandler_get J urljoin_url (init sch c m) req path_id REDIRECT_CONNECTION
       = Inl (HTTPException 302 (if startswith url [''.'', ''/''] then urljoin_url url else url))"
    by (simp add: ConnectionHandler_get_def BaseHandler_get_def)
  then show ?thesis by simp
qed

text \<open>On the fixture, \<open>GET //picture?ids=bob,alice\<close>: the first row is the picture of
  \<open>alice\<close>. And \<open>GET /alice/picture\<close> with a picture stored as \<open>/pic\<close>.\<close>

theorem picture_redirect_witness:
  "REDIRECT_CONNECTION \<in> (\<Union>names \<in> set (map snd test_schema). set names)
   \<and> split CHR '','' (request_get [(''ids'', ''bob,alice'')] ''ids'') = [''bob'', ''alice'']
   \<and> prepare_ids (init test_schema test_db 1) [(''ids'', ''bob,alice'')] []
       = Inr \<lparr> entries = [(''1'', ''alice''), (''2'', ''bob'')], single = False \<rparr>
   \<and> select_connections test_db [''1'', ''2''] REDIRECT_CONNECTION
       = [(''1'', ''\"http://alice/picture\"''), (''2'', ''\"http://bob/picture\"'')]
   \<and> loads test_json ''\"http://alice/picture\"'' = Some (JString ''http://alice/picture'')
   \<and> \<not> startswith ''http://alice/picture'' [''.'', ''/'']
   \<and> ConnectionHandler_get test_json test_urljoin (init test_schema test_db 1)
         [(''ids'', ''bob,alice'')] [] REDIRECT_CONNECTION
       = Inl (HTTPException 302 ''http://alice/picture'')
   \<and> prepare_ids (init test_schema path_db 1) [] ''alice''
       = Inr \<lparr> entries = [(''1'', ''alice'')], single = True \<rparr>
   \<and> select_connections path_db [''1''] REDIRECT_CONNECTION = [(''1'', ''\"/pic\"'')]
   \<and> loads test_json ''\"/pic\"'' = Some (JString ''/pic'')
   \<and> ConnectionHandler_get test_json test_urljoin (init test_schema path_db 1)
         [] ''alice'' REDIRECT_CONNECTION
       = Inl (HTTPException 302 ''http://localhost/pic'')"
proof -
  let ?nd = "\<lparr> entries = [(''1'', ''alice''), (''2'', ''bob'')], single = False \<rparr>"
  let ?one = "\<lparr> entries = [(''1'', ''alice'')], single = True \<rparr>"
  have a: "REDIRECT_CONNECTION \<in> (\<Union>names \<in> set (map snd test_schema). set names)"
    by code_simp
  have b: "prepare_ids (init test_schema test_db 1) [(''ids'', ''bob,alice'')] [] = Inr ?nd"
    by code_simp
  have c: "select_connections test_db (map fst (entries ?nd)) REDIRECT_CONNECTION
       = (''1'', ''\"http://alice/picture\"'') # [(''2'', ''\"http://bob/picture\"'')]" by code_simp
  have d: "loads test_json ''\"http://alice/picture\"'' = Some (JString ''http://alice/picture'')"
    by code_simp
  have e: "split CHR '','' (request_get [(''ids'', ''bob,alice'')] ''ids'') = [''bob'', ''alice'']"
    by code_simp
  have f: "\<not> startswith ''http://alice/picture'' [''.'', ''/'']" by code_simp
  have b': "prepare_ids (init test_schema path_db 1) [] ''alice'' = Inr ?one" by code_simp
  have c': "select_connections path_db (map fst (entries ?one)) REDIRECT_CONNECTION
       = (''1'', ''\"/pic\"'') # []" by code_simp
  have d': "loads test_json ''\"/pic\"'' = Some (JString ''/pic'')" by code_simp
  have g: "(if startswith ''/pic'' [''.'', ''/''] then test_urljoin ''/pic'' else ''/pic'')
             = ''http://localhost/pic''" by code_simp
  from picture_redirect [OF a b c d, of test_urljoin] f
  have 1: "ConnectionHandler_get test_json test_urljoin (init test_schema test_db 1)
         [(''ids'', ''bob,alice'')] [] REDIRECT_CONNECTION
       = Inl (HTTPException 302 ''http://alice/picture'')" by blast
  from picture_redirect [OF a b' c' d', of test_urljoin]
  have 2: "ConnectionHandler_get test_json test_urljoin (init test_schema path_db 1)
         [] ''alice'' REDIRECT_CONNECTION
       = Inl (HTTPException 302 ''http://localhost/pic'')" unfolding g by blast
  from 1 2 a b c d e f b' c' d' show ?thesis by simp
qed

text \<open>With a schema that has no connections (the class's default), \<open>GET /alice/picture\<close>
  on the fixture's database finds the row of the picture but answers with the body of
  \<open>UnknownPathError\<close>. With the fixture's schema and a picture stored as \<open>/pic\<close>, the
  target of the redirect is not the stored string.\<close>

theorem picture_redirect_counterexample:
  "prepare_ids (init [] test_db 1) [] ''alice''
     = Inr \<lparr> entries = [(''1'', ''alice'')], single = True \<rparr>
   \<and> select_connections test_db [''1''] ''picture'' = [(''1'', ''\"http://alice/picture\"'')]
   \<and> ConnectionHandler_get test_json test_urljoin (init [] test_db 1) [] ''alice'' ''picture''
       = Inr (write_response (unicode test_json (UnknownPathError ''picture'')))
   \<and> select_connections path_db [''1''] ''picture'' = [(''1'', ''\"/pic\"'')]
   \<and> loads test_json ''\"/pic\"'' = Some (JString ''/pic'')
   \<and> ConnectionHandler_get test_json test_urljoin (init test_schema path_db 1) [] ''alice'' ''picture''
       = Inl (HTTPException 302 ''http://localhost/pic'')
   \<and> ''http://localhost/pic'' \<noteq> ''/pic''"
  by code_simp

section \<open>The alias as response key\<close>

lemma object_pairs_sound:
  assumes "object_pairs J nd rows = Inr ps" and "(name, v) \<in> set ps"
  shows "\<exists>i d. (i, d) \<in> set rows \<and> map_of nd i = Some name \<and> loads J d = Some v"
  using assms
proof (induction rows arbitrary: ps)
  case Nil
  then show ?case by simp
next
  case (Cons r rows)
  obtain i d where r: "r = (i, d)" by (cases r)
  from Cons.prems(1) r obtain n w ps' where
    step: "map_of nd i = Some n" "loads J d = Some w" "object_pairs J nd rows = Inr ps'"
      "ps = (n, w) # ps'"
    by (auto split: option.splits sum.splits)
  from Cons.prems(2) step(4) consider "(name, v) = (n, w)" | "(name, v) \<in> set ps'" by auto
  then show ?case
  proof cases
    case 1
    with step r show ?thesis by auto
  next
    case 2
    from Cons.IH [OF step(3) 2] show ?thesis by auto
  qed
qed

lemma object_pairs_complete:
  assumes "object_pairs J nd rows = Inr ps" and "(i, d) \<in> set rows"
  shows "\<exists>name v. map_of nd i = Some name \<and> loads J d = Some v \<and> (name, v) \<in> set ps"
  using assms
proof (induction rows arbitrary: ps)
  case Nil
  then show ?case by simp
next
  case (Cons r rows)
  obtain i' d' where r: "r = (i', d')" by (cases r)
  from Cons.prems(1) r obtain n w ps' where
    step: "map_of nd i' = Some n" "loads J d' = Some w" "object_pairs J nd rows = Inr ps'"
      "ps = (n, w) # ps'"
    by (auto split: option.splits sum.splits)
  from Cons.prems(2) r consider "(i, d) = (i', d')" | "(i, d) \<in> set rows" by auto
  then show ?case
  proof cases
    case 1
    with step show ?thesis by auto
  next
    case 2
    from Cons.IH [OF step(3) 2] step(4) show ?thesis by auto
  qed
qed

lemma unique_id_row:
  assumes "distinct (stored_ids c)"
      and "(i, a, d) \<in> set (graph_objects c)" and "(i, a', d') \<in> set (graph_objects c)"
  shows "a = a' \<and> d = d'"
proof -
  from assms(1) have "inj_on (\<lambda>(i, alias, d). i) (set (graph_objects c))"
    by (simp add: stored_ids_def distinct_map)
  from inj_onD [OF this _ assms(2,3)] show ?thesis by simp
qed

lemma unique_alias_row:
  assumes "distinct (stored_aliases c)"
      and "(i, Some a, d) \<in> set (graph_objects c)" and "(i', Some a, d') \<in> set (graph_objects c)"
  shows "i = i' \<and> d = d'"
proof -
  let ?f = "\<lambda>(i, alias, d). alias :: string option"
  let ?S = "set (filter (\<lambda>x. ?f x \<noteq> None) (graph_objects c))"
  from assms(1) have inj: "inj_on (the \<circ> ?f) ?S"
    by (simp add: stored_aliases_def List.map_filter_def distinct_map)
  from assms(2,3) have m: "(i, Some a, d) \<in> ?S" "(i', Some a, d') \<in> ?S" by auto
  have "(the \<circ> ?f) (i, Some a, d) = (the \<circ> ?f) (i', Some a, d')" by simp
  from inj_onD [OF inj this m] show ?thesis by simp
qed

lemma select_objects_iff:
  "(i, d) \<in> set (select_objects c ids) \<longleftrightarrow>
     (\<exists>a. (i, a, d) \<in> set (graph_objects c)) \<and> i \<in> set ids"
  by (force simp: select_objects_def image_iff)

lemma prepare_ids_entries:
  assumes "distinct (stored_ids (conn h))"
      and "requested_names req path_id = Inr names"
      and "prepare_ids h req path_id = Inr nd"
  shows "entries nd =
           map (\<lambda>(i, a). (i, if alias_in a names then the a else i)) (select_names (conn h) names)"
proof (cases "py_set (filter (\<lambda>n. \<not> stored (conn h) n) names) = []")
  case True
  then have "prepare_ids h req path_id =
      Inr \<lparr> entries = map (\<lambda>(i, a). (i, if alias_in a names then the a else i))
                          (select_names (conn h) names),
            single = (path_id \<noteq> []) \<rparr>"
    by (simp add: prepare_ids_not_found [OF assms(1,2)] Let_def)
  with assms(3) have "nd = \<lparr> entries = map (\<lambda>(i, a). (i, if alias_in a names then the a else i))
                          (select_names (conn h) names),
            single = (path_id \<noteq> []) \<rparr>"
    by simp
  then show ?thesis by simp
next
  case False
  then have "\<exists>e. prepare_ids h req path_id = Inl e"
    by (simp add: prepare_ids_not_found [OF assms(1,2)] Let_def)
  with assms(3) show ?thesis by auto
qed


lemma entries_row:
  assumes "(k, n) \<in> set (map (\<lambda>(i, a). (i, if alias_in a names then the a else i))
                              (select_names c names))"
  shows "\<exists>al dt. (k, al, dt) \<in> set (graph_objects c)
           \<and> n = (if alias_in al names then the al else k)"
proof -
  from assms obtain i a where
    ia: "(i, a) \<in> set (select_names c names)"
        "(k, n) = (i, if alias_in a names then the a else i)"
    by (auto simp: image_iff)
  from ia(1) obtain dt where "(i, a, dt) \<in> set (graph_objects c)"
    by (auto simp: set_select_names)
  with ia(2) show ?thesis by auto
qed

lemma ObjectHandler__get_Inr:
  assumes "ObjectHandler__get J h nd = Inr resp"
  shows "\<exists>ps. object_pairs J (entries nd) (select_objects (conn h) (map fst (entries nd))) = Inr ps
           \<and> resp = py_dict ps"
proof (cases "object_pairs J (entries nd) (select_objects (conn h) (map fst (entries nd)))")
  case (Inl e)
  with assms show ?thesis by (simp add: ObjectHandler__get_def)
next
  case (Inr ps)
  with assms show ?thesis by (simp add: ObjectHandler__get_def)
qed

text \<open>
  C2. Let the ids of the stored objects be unique, and let the alias \<open>a\<close> of a stored
  object with id \<open>i\<close> be among the requested names of a request whose names resolve.
  Then the name dictionary maps \<open>i\<close> to \<open>a\<close>: the alias is the object's response key,
  whether or not the id was requested too. In the response of the object handler the
  keys are pairwise different and \<open>a\<close> is one of them. If \<open>i\<close> is not the alias of a
  stored object, \<open>i\<close> is not a key. If the aliases are unique and \<open>a\<close> is not the id of
  a stored object, the entry at \<open>a\<close> is the decoded payload of the object.
\<close>

theorem alias_is_response_key:
  assumes "distinct (stored_ids (conn h))"
      and "(i, Some a, d) \<in> set (graph_objects (conn h))"
      and "requested_names req path_id = Inr names" and "a \<in> set names"
      and "prepare_ids h req path_id = Inr nd"
      and "ObjectHandler__get J h nd = Inr resp"
  shows "map_of (entries nd) i = Some a
       \<and> distinct (map fst resp)
       \<and> a \<in> fst ` set resp
       \<and> (i \<noteq> a \<and> i \<notin> set (stored_aliases (conn h)) \<longrightarrow> map_of resp i = None)
       \<and> (distinct (stored_aliases (conn h)) \<and> a \<notin> set (stored_ids (conn h)) \<longrightarrow>
            map_of resp a = loads J d)"
proof -
  define E where "E = entries nd"
  have E: "E = map (\<lambda>(i, a). (i, if alias_in a names then the a else i))
                 (select_names (conn h) names)"
    unfolding E_def by (rule prepare_ids_entries [OF assms(1,3,5)])
  have "map fst E = map fst (select_names (conn h) names)"
    unfolding E by (simp add: case_prod_unfold comp_def)
  with distinct_select_names [OF assms(1), of names] have dE: "distinct (map fst E)" by simp
  have in_E: "\<exists>al dt. (k, al, dt) \<in> set (graph_objects (conn h))
                \<and> n = (if alias_in al names then the al else k)"
    if "(k, n) \<in> set E" for k n
    using that unfolding E by (rule entries_row)
  from assms(2,4) have sel: "(i, Some a) \<in> set (select_names (conn h) names)"
    by (auto simp: set_select_names alias_in_def)
  from assms(4) have "alias_in (Some a) names" by (simp add: alias_in_def)
  with sel have "(i, a) \<in> set E" unfolding E by force
  with dE have key: "map_of E i = Some a" by (rule map_of_is_SomeI)
  from ObjectHandler__get_Inr [OF assms(6)] obtain ps where
    ps: "object_pairs J E (select_objects (conn h) (map fst E)) = Inr ps"
    and resp: "resp = py_dict ps"
    unfolding E_def by blast
  from \<open>(i, a) \<in> set E\<close> have "i \<in> set (map fst E)" by force
  with assms(2) have row: "(i, d) \<in> set (select_objects (conn h) (map fst E))"
    unfolding select_objects_iff by blast
  from object_pairs_complete [OF ps row] key obtain v where
    v: "loads J d = Some v" "(a, v) \<in> set ps" by auto
  have 1: "map_of (entries nd) i = Some a" using key by (simp add: E_def)
  have 2: "distinct (map fst resp)" by (simp add: resp distinct_py_dict)
  from v(2) have "a \<in> fst ` set ps" by force
  then have 3: "a \<in> fst ` set resp" by (simp add: resp keys_py_dict)
  have 4: "map_of resp i = None" if "i \<noteq> a" "i \<notin> set (stored_aliases (conn h))"
  proof (rule ccontr)
    assume "map_of resp i \<noteq> None"
    then have "i \<in> fst ` set ps" by (simp add: resp map_of_eq_None_iff keys_py_dict)
    then obtain w where "(i, w) \<in> set ps" by auto
    from object_pairs_sound [OF ps this] obtain k where k: "map_of E k = Some i" by blast
    then have "(k, i) \<in> set E" by (rule map_of_SomeD)
    from in_E [OF this] obtain al dt where
      al: "(k, al, dt) \<in> set (graph_objects (conn h))"
          "i = (if alias_in al names then the al else k)"
      by blast
    show False
    proof (cases "alias_in al names")
      case True
      with al(2) have "al = Some i" by (cases al) (simp_all add: alias_in_def)
      with al(1) have "i \<in> set (stored_aliases (conn h))"
        unfolding stored_aliases_iff by blast
      with that(2) show False by simp
    next
      case False
      with al(2) have "k = i" by simp
      with k key that(1) show False by simp
    qed
  qed
  have 5: "map_of resp a = loads J d"
    if "distinct (stored_aliases (conn h))" "a \<notin> set (stored_ids (conn h))"
  proof -
    have "w = v" if "(a, w) \<in> set ps" for w
    proof -
      from object_pairs_sound [OF ps that] obtain k dk where
        k: "(k, dk) \<in> set (select_objects (conn h) (map fst E))" "map_of E k = Some a"
           "loads J dk = Some w" by blast
      from k(1) obtain ak where row_k: "(k, ak, dk) \<in> set (graph_objects (conn h))"
        unfolding select_objects_iff by blast
      from k(2) have "(k, a) \<in> set E" by (rule map_of_SomeD)
      from in_E [OF this] obtain al dt where
        al: "(k, al, dt) \<in> set (graph_objects (conn h))"
            "a = (if alias_in al names then the al else k)"
        by blast
      from unique_id_row [OF assms(1) row_k al(1)] have same: "ak = al" "dk = dt" by simp_all
      show "w = v"
      proof (cases "alias_in al names")
        case True
        with al(2) have "al = Some a" by (cases al) (simp_all add: alias_in_def)
        with row_k same have "(k, Some a, dk) \<in> set (graph_objects (conn h))" by simp
        from unique_alias_row [OF \<open>distinct (stored_aliases (conn h))\<close> assms(2) this]
        have "d = dk" by simp
        with k(3) v(1) show ?thesis by simp
      next
        case False
        with al(2) have "k = a" by simp
        with row_k have "a \<in> set (stored_ids (conn h))" unfolding stored_ids_iff by blast
        with \<open>a \<notin> set (stored_ids (conn h))\<close> show ?thesis by simp
      qed
    qed
    with v(2) have "map_of (rev ps) a = Some v" by (rule map_of_rev_unique)
    with v(1) show ?thesis by (simp add: resp map_of_py_dict)
  qed
  from 1 2 3 4 5 show ?thesis by blast
qed

text \<open>\<open>GET /?ids=alice,1\<close> on the fixture.\<close>

theorem alias_is_response_key_witness:
  "distinct (stored_ids (conn test_handler))
   \<and> (''1'', Some ''alice'', ''{\"id\": \"1\", \"foo\": \"bar\"}'')
        \<in> set (graph_objects (conn test_handler))
   \<and> requested_names [(''ids'', ''alice,1'')] [] = Inr [''1'', ''alice'']
   \<and> prepare_ids test_handler [(''ids'', ''alice,1'')] []
       = Inr \<lparr> entries = [(''1'', ''alice'')], single = False \<rparr>
   \<and> ObjectHandler__get test_json test_handler \<lparr> entries = [(''1'', ''alice'')], single = False \<rparr>
       = Inr [(''alice'', alice)]
   \<and> ''1'' \<notin> set (stored_aliases (conn test_handler))
   \<and> distinct (stored_aliases (conn test_handler))
   \<and> ''alice'' \<notin> set (stored_ids (conn test_handler))
   \<and> map_of [(''alice'', alice)] ''alice''
       = loads test_json ''{\"id\": \"1\", \"foo\": \"bar\"}''
   \<and> map_of [(''alice'', alice)] ''1'' = None"
proof -
  let ?nd = "\<lparr> entries = [(''1'', ''alice'')], single = False \<rparr>"
  have a: "distinct (stored_ids (conn test_handler))" by code_simp
  have b: "(''1'', Some ''alice'', ''{\"id\": \"1\", \"foo\": \"bar\"}'')
             \<in> set (graph_objects (conn test_handler))" by code_simp
  have c: "requested_names [(''ids'', ''alice,1'')] [] = Inr [''1'', ''alice'']" by code_simp
  have d: "''alice'' \<in> set [''1'', ''alice'']" by simp
  have e: "prepare_ids test_handler [(''ids'', ''alice,1'')] [] = Inr ?nd" by code_simp
  have f: "ObjectHandler__get test_json test_handler ?nd = Inr [(''alice'', alice)]" by code_simp
  have g: "''1'' \<noteq> ''alice''" by simp
  have g': "''1'' \<notin> set (stored_aliases (conn test_handler))" by code_simp
  have h: "distinct (stored_aliases (conn test_handler))" by code_simp
  have h': "''alice'' \<notin> set (stored_ids (conn test_handler))" by code_simp
  from alias_is_response_key [OF a b c d e f] g g' h h'
  have "map_of [(''alice'', alice)] ''1'' = None"
    and "map_of [(''alice'', alice)] ''alice''
           = loads test_json ''{\"id\": \"1\", \"foo\": \"bar\"}''"
    by blast+
  with a b c e f g' h h' show ?thesis by blast
qed

text \<open>\<open>GET /?ids=1,2\<close> on a database in which the alias of the object \<open>1\<close> is the id of
  the object \<open>2\<close>: the only entry of the response is keyed \<open>2\<close> and holds the payload of
  the object \<open>2\<close>.\<close>

theorem alias_is_another_id_counterexample:
  "distinct (stored_ids clash_db) \<and> distinct (stored_aliases clash_db)
   \<and> (''1'', Some ''2'', ''{\"id\": \"1\", \"foo\": \"bar\"}'') \<in> set (graph_objects clash_db)
   \<and> requested_names [(''ids'', ''1,2'')] [] = Inr [''1'', ''2'']
   \<and> prepare_ids (init test_schema clash_db 1) [(''ids'', ''1,2'')] []
       = Inr \<lparr> entries = [(''1'', ''2''), (''2'', ''2'')], single = False \<rparr>
   \<and> ObjectHandler__get test_json (init test_schema clash_db 1)
         \<lparr> entries = [(''1'', ''2''), (''2'', ''2'')], single = False \<rparr>
       = Inr [(''2'', bob)]
   \<and> ObjectHandler_get test_json (init test_schema clash_db 1) [(''ids'', ''1,2'')] []
       = Inr (write_response (dumps test_json None (JObject [(''2'', bob)])))
   \<and> loads test_json ''{\"id\": \"1\", \"foo\": \"bar\"}'' = Some alice
   \<and> alice \<noteq> bob"
  by code_simp

end
